theory Spec2Isabelle
  imports Main
begin

section \<open>Python values, Numba types and exceptions\<close>

text \<open>
  Numba types as the decorators and the extension-class builder use them: a named
  scalar type (\<open>f8\<close>, \<open>i4\<close>, ...), the extension type of a class, a pointer, and a
  function type. A function type carries its return type (which \<open>resolve_argtypes\<close>
  may leave as \<open>None\<close>), its argument types and the two flags \<open>is_class\<close> and
  \<open>is_static\<close> that \<open>inherit_attributes\<close> reads.
\<close>

datatype ty =
    Named string
  | Extension string
  | Pointer ty
  | FunctionType "ty option" "ty list" bool bool

text \<open>
  The exceptions the modelled code raises. \<open>External\<close> stands for whatever an
  external collaborator (the pipeline, the type mapper, the signature parser) raises.
\<close>

datatype exn =
    AssertionError string
  | TypeError string
  | NotImplementedError string
  | NumbaError string
  | PyException string
  | KeyError string
  | IndexError
  | AttributeError string
  | External string

text \<open>Python values that travel through keyword dictionaries and decorator arguments.\<close>

datatype pyval =
    PyNone
  | PyBool bool
  | PyInt int
  | PyStr string
  | PyType ty
  | PyTypes "ty list"
  | PyLocals "(string \<times> ty) list"
  | PyClass string
  | PyFunction string
  | PyModule string
  | PyObject nat

text \<open>
  A dictionary is an association list with unique keys; \<open>dict_get\<close> is
  \<open>d.get(k)\<close>, \<open>dict_set\<close> is \<open>d[k] = v\<close>, \<open>dict_pop\<close> is the dictionary left by
  \<open>d.pop(k, None)\<close>. The list holds the entries in the order they were first set;
  where the code enumerates a dictionary, the order of enumeration is a parameter of
  its own.
\<close>

type_synonym ('k, 'v) dict = "('k \<times> 'v) list"

definition dict_get :: "('k, 'v) dict \<Rightarrow> 'k \<Rightarrow> 'v option" where
  "dict_get d k = map_of d k"

fun dict_set :: "('k, 'v) dict \<Rightarrow> 'k \<Rightarrow> 'v \<Rightarrow> ('k, 'v) dict" where
  "dict_set [] k v = [(k, v)]"
| "dict_set ((k', v') # d) k v =
     (if k' = k then (k, v) # d else (k', v') # dict_set d k v)"

definition dict_pop :: "('k, 'v) dict \<Rightarrow> 'k \<Rightarrow> ('k, 'v) dict" where
  "dict_pop d k = filter (\<lambda>kv. fst kv \<noteq> k) d"

type_synonym kwdict = "(string, pyval) dict"

definition get_or_none :: "kwdict \<Rightarrow> string \<Rightarrow> pyval" where
  "get_or_none d k = (case dict_get d k of None \<Rightarrow> PyNone | Some v \<Rightarrow> v)"

text \<open>Python truth value, and \<open>x or y\<close>.\<close>

fun truthy :: "pyval \<Rightarrow> bool" where
  "truthy PyNone = False"
| "truthy (PyBool b) = b"
| "truthy (PyInt i) = (i \<noteq> 0)"
| "truthy (PyStr s) = (s \<noteq> [])"
| "truthy (PyTypes ts) = (ts \<noteq> [])"
| "truthy v = True"

definition py_or :: "pyval \<Rightarrow> pyval \<Rightarrow> pyval" where
  "py_or x y = (if truthy x then x else y)"

section \<open>decorators.py: the entry points jit, autojit and export\<close>

subsection \<open>The backend tables\<close>

datatype jitter = Not_implemented | Jit

definition jit_targets :: "string \<times> string \<Rightarrow> jitter option" where
  "jit_targets = map_of
     [((''cpu'', ''bytecode''), Not_implemented),
      ((''cpu'', ''ast''), Jit)]"

datatype autojit_wrapper = Not_implemented_wrapper | NumbaSpecializingWrapper

definition autojit_wrappers :: "string \<times> string \<Rightarrow> autojit_wrapper option" where
  "autojit_wrappers = map_of
     [((''cpu'', ''bytecode''), Not_implemented_wrapper),
      ((''cpu'', ''ast''), NumbaSpecializingWrapper)]"

text \<open>\<open>_not_implemented(*args, **kws)\<close> raises whatever it is called with.\<close>

definition not_implemented :: "pyval list \<Rightarrow> kwdict \<Rightarrow> exn + 'a" where
  "not_implemented args kws =
     Inl (NotImplementedError ''Bytecode backend is no longer supported.'')"

subsection \<open>jit\<close>

text \<open>
  \<open>_jit(**kws)\<close> binds its named parameters from the keywords, fetches the
  environment when none was given, and returns the closure \<open>_jit_decorator\<close>; nothing
  is compiled until that closure is applied to a function. The closure is the record
  of what it captured.
\<close>

record jit_closure =
  jc_restype :: pyval
  jc_argtypes :: pyval
  jc_nopython :: pyval
  jc_env :: pyval
  jc_kwargs :: "kwdict"

definition jit_inner :: "(pyval \<Rightarrow> pyval) \<Rightarrow> kwdict \<Rightarrow> jit_closure" where
  "jit_inner get_environment kws =
     \<lparr> jc_restype = get_or_none kws ''restype'',
       jc_argtypes = get_or_none kws ''argtypes'',
       jc_nopython = (case dict_get kws ''nopython'' of None \<Rightarrow> PyBool False | Some v \<Rightarrow> v),
       jc_env = (if get_or_none kws ''env'' = PyNone
                 then get_environment (get_or_none kws ''env_name'')
                 else get_or_none kws ''env''),
       jc_kwargs = filter (\<lambda>kv. fst kv \<notin> {''restype'', ''argtypes'', ''nopython'',
                      ''_llvm_module'', ''env_name'', ''env''}) kws \<rparr>"

text \<open>
  \<open>jit_extension_class\<close>: supplies a fresh LLVM module when the keywords carry none
  and hands the class to \<open>create_extension\<close>, the extension-class builder, which is a
  parameter here.
\<close>

definition jit_extension_class ::
  "(pyval \<Rightarrow> string \<Rightarrow> kwdict \<Rightarrow> exn + 'x) \<Rightarrow> string \<Rightarrow> kwdict \<Rightarrow> pyval \<Rightarrow> exn + 'x" where
  "jit_extension_class create_extension py_class translator_kwargs env =
     (let translator_kwargs' =
        (if get_or_none translator_kwargs ''llvm_module'' = PyNone
         then dict_set translator_kwargs ''llvm_module''
                (PyModule (''tmp.extension_class.'' @ py_class))
         else translator_kwargs)
      in create_extension env py_class translator_kwargs')"

datatype 'x jit_result = ExtensionClass 'x | JitDecorator jit_closure

text \<open>
  \<open>jit(restype, argtypes, backend, target, nopython, **kws)\<close>. The parameters
  \<open>get_environment\<close>, \<open>create_extension\<close> and \<open>process_signature\<close> are the
  collaborators outside this module; \<open>process_signature\<close> yields the name, return
  type and argument types of a signature string.
\<close>

definition jit ::
  "(pyval \<Rightarrow> pyval) \<Rightarrow> (pyval \<Rightarrow> string \<Rightarrow> kwdict \<Rightarrow> exn + 'x) \<Rightarrow>
   (string \<Rightarrow> pyval \<Rightarrow> exn + (pyval \<times> pyval \<times> pyval)) \<Rightarrow>
   pyval \<Rightarrow> pyval \<Rightarrow> string \<Rightarrow> string \<Rightarrow> pyval \<Rightarrow> kwdict \<Rightarrow> exn + 'x jit_result" where
  "jit get_environment create_extension process_signature
       restype argtypes backend target nopython kws0 =
     (let kws = dict_set (dict_set kws0 ''nopython'' nopython) ''backend'' (PyStr backend);
          dispatch = (\<lambda>restype argtypes kws.
            let kws = (if restype \<noteq> PyNone then dict_set kws ''restype'' restype else kws);
                kws = (if argtypes \<noteq> PyNone then dict_set kws ''argtypes'' argtypes else kws)
            in case jit_targets (target, backend) of
                 None \<Rightarrow> Inl (KeyError (target @ '', '' @ backend))
               | Some Not_implemented \<Rightarrow> not_implemented [] kws
               | Some Jit \<Rightarrow> Inr (JitDecorator (jit_inner get_environment kws)))
      in case restype of
           PyClass cls \<Rightarrow>
             (let env = py_or (get_or_none kws ''env'')
                              (get_environment (get_or_none kws ''env_name''))
              in case jit_extension_class create_extension cls (dict_pop kws ''env'') env of
                   Inl e \<Rightarrow> Inl e
                 | Inr x \<Rightarrow> Inr (ExtensionClass x))
         | PyType (FunctionType ret args c s) \<Rightarrow>
             (if argtypes \<noteq> PyNone
              then Inl (TypeError ''Cannot use both calling syntax and argtypes keyword'')
              else dispatch (case ret of None \<Rightarrow> PyNone | Some t \<Rightarrow> PyType t)
                            (PyTypes args) kws)
         | PyStr s \<Rightarrow>
             (if argtypes = PyNone
              then (case process_signature s (get_or_none kws ''name'') of
                      Inl e \<Rightarrow> Inl e
                    | Inr (name, restype', argtypes') \<Rightarrow>
                        dispatch restype' argtypes'
                          (if name \<noteq> PyNone then dict_set kws ''func_name'' name else kws))
              else dispatch restype argtypes kws)
         | _ \<Rightarrow> dispatch restype argtypes kws)"

subsection \<open>autojit\<close>

text \<open>
  \<open>_autojit(template_signature, target, nopython, env_name, env, **translator_kwargs)\<close>
  returns the closure \<open>_autojit_decorator\<close>, again the record of what it captured.
  \<open>autojit\<close> passes \<open>locals\<close> on as a keyword, so it ends up in
  \<open>translator_kwargs\<close>.
\<close>

record autojit_closure =
  ac_template_signature :: pyval
  ac_target :: string
  ac_nopython :: pyval
  ac_env :: pyval
  ac_translator_kwargs :: kwdict

definition autojit_inner ::
  "(pyval \<Rightarrow> pyval) \<Rightarrow> pyval \<Rightarrow> string \<Rightarrow> pyval \<Rightarrow> kwdict \<Rightarrow> autojit_closure" where
  "autojit_inner get_environment template_signature target nopython kws =
     \<lparr> ac_template_signature = template_signature,
       ac_target = target,
       ac_nopython = nopython,
       ac_env = (if get_or_none kws ''env'' = PyNone
                 then get_environment (get_or_none kws ''env_name'')
                 else get_or_none kws ''env''),
       ac_translator_kwargs = filter (\<lambda>kv. fst kv \<notin> {''env_name'', ''env''}) kws \<rparr>"

text \<open>
  What \<open>autojit\<close> can return: the function \<open>_not_implemented\<close> itself, the
  decorator closure, or (when it was handed the function directly) the specializing
  wrapper around that function.
\<close>

datatype autojit_result =
    NotImplementedFunction
  | AutojitDecorator autojit_closure
  | NumbaFunction pyval autojit_closure

text \<open>
  \<open>_autojit_decorator(f)\<close>: registers \<open>f\<close> with the environment's specializations
  (a registry outside this module, left out here) and wraps it with the wrapper the
  table gives for the target and the \<open>ast\<close> backend. No compilation happens here;
  the wrapper compiles on its first call.
\<close>

definition autojit_decorator :: "autojit_closure \<Rightarrow> pyval \<Rightarrow> exn + autojit_result" where
  "autojit_decorator c f =
     (case autojit_wrappers (ac_target c, ''ast'') of
        None \<Rightarrow> Inl (KeyError (ac_target c @ '', ast''))
      | Some Not_implemented_wrapper \<Rightarrow> not_implemented [f] []
      | Some NumbaSpecializingWrapper \<Rightarrow> Inr (NumbaFunction f c))"

fun callable :: "pyval \<Rightarrow> bool" where
  "callable (PyFunction f) = True"
| "callable (PyClass c) = True"
| "callable v = False"

fun is_Type :: "pyval \<Rightarrow> bool" where
  "is_Type (PyType t) = True"
| "is_Type v = False"

text \<open>
  \<open>autojit(template_signature, backend, target, nopython, locals, **kwargs)\<close>. The
  recursive call of line 230 has no template signature and the backend \<open>ast\<close>, so it
  is \<open>_autojit(None, target, nopython, locals=locals, **kwargs)\<close>, applied to the
  function at once.
\<close>

definition autojit ::
  "(pyval \<Rightarrow> pyval) \<Rightarrow> pyval \<Rightarrow> string \<Rightarrow> string \<Rightarrow> pyval \<Rightarrow> pyval \<Rightarrow> kwdict \<Rightarrow>
   exn + autojit_result" where
  "autojit get_environment template_signature backend target nopython locals_arg kwargs =
     (if truthy template_signature \<and> \<not> is_Type template_signature
      then (if callable template_signature
            then autojit_decorator
                   (autojit_inner get_environment PyNone target nopython
                      (dict_set kwargs ''locals'' locals_arg))
                   template_signature
            else Inl (PyException (''The autojit decorator should be called: ''
                        @ ''@autojit(backend='' @ [CHR 0x27] @ ''ast'' @ [CHR 0x27] @ '')'')))
      else if backend = ''bytecode''
      then Inr NotImplementedFunction
      else Inr (AutojitDecorator
                  (autojit_inner get_environment template_signature target nopython
                     (dict_set kwargs ''locals'' locals_arg))))"

text \<open>Applying what \<open>autojit\<close> returned, as a decorator, to a function.\<close>

fun apply_autojit :: "autojit_result \<Rightarrow> pyval \<Rightarrow> exn + autojit_result" where
  "apply_autojit NotImplementedFunction f = not_implemented [f] []"
| "apply_autojit (AutojitDecorator c) f = autojit_decorator c f"
| "apply_autojit (NumbaFunction g c) f = Inl (External ''call of a specialized function'')"

subsection \<open>export\<close>

text \<open>
  The export environment's three maps, keyed by the exported name, and its
  \<open>wrap_exports\<close> switch. A parsed signature is its name, return type and argument
  types.
\<close>

type_synonym parsed_signature = "pyval \<times> pyval \<times> pyval"

record exports_env =
  function_signature_map :: "(pyval, parsed_signature) dict"
  function_module_map :: "(pyval, pyval) dict"
  function_wrapper_map :: "(pyval, pyval) dict"
  wrap_exports :: bool

record export_closure =
  ec_function_signature :: parsed_signature
  ec_backend :: pyval

definition internal_export :: "parsed_signature \<Rightarrow> kwdict \<Rightarrow> export_closure" where
  "internal_export function_signature kws =
     \<lparr> ec_function_signature = function_signature,
       ec_backend = (case dict_get kws ''backend'' of None \<Rightarrow> PyStr ''ast'' | Some b \<Rightarrow> b) \<rparr>"

fun py_str :: "pyval \<Rightarrow> string" where
  "py_str (PyStr s) = s"
| "py_str PyNone = ''None''"
| "py_str v = ''<object>''"

text \<open>
  \<open>_iexport(func)\<close>. \<open>run_pipeline\<close> stands for everything between creating the
  module and the end of the pipeline run (\<open>_get_ast\<close>, the translation context, the
  pipeline); \<open>build_wrapper_module\<close> is \<open>llvmwrapper.build_wrapper_module\<close>. The
  maps are written only after the pipeline has returned.
\<close>

definition iexport ::
  "(pyval \<Rightarrow> parsed_signature \<Rightarrow> pyval \<Rightarrow> exn + unit) \<Rightarrow> (pyval \<Rightarrow> exn + pyval) \<Rightarrow>
   export_closure \<Rightarrow> pyval \<Rightarrow> exports_env \<Rightarrow> (exn + pyval) \<times> exports_env" where
  "iexport run_pipeline build_wrapper_module c func exports =
     (if ec_backend c = PyStr ''bytecode''
      then (Inl (NotImplementedError
                   ''Bytecode translation has been removed for exported functions.''),
            exports)
      else
        (let function_signature = ec_function_signature c;
             name = fst function_signature;
             llvm_module = PyModule (''export_'' @ py_str name)
         in case run_pipeline func function_signature llvm_module of
              Inl e \<Rightarrow> (Inl e, exports)
            | Inr u \<Rightarrow>
                (let exports1 = exports
                       \<lparr> function_signature_map :=
                           dict_set (function_signature_map exports) name function_signature,
                         function_module_map :=
                           dict_set (function_module_map exports) name llvm_module \<rparr>
                 in if \<not> wrap_exports exports1
                    then (Inr func, exports1
                            \<lparr> function_wrapper_map :=
                                dict_set (function_wrapper_map exports1) name PyNone \<rparr>)
                    else (case build_wrapper_module name of
                            Inl e \<Rightarrow> (Inl e, exports1)
                          | Inr wrapper_tup \<Rightarrow>
                              (Inr func, exports1
                                 \<lparr> function_wrapper_map :=
                                     dict_set (function_wrapper_map exports1) name
                                       wrapper_tup \<rparr>)))))"

text \<open>
  \<open>export(signature, **kws)\<close> parses the signature string and returns the closure;
  a signature that does not parse raises before any decorator exists.
\<close>

definition export_decorator ::
  "(string \<Rightarrow> pyval \<Rightarrow> exn + parsed_signature) \<Rightarrow> string \<Rightarrow> kwdict \<Rightarrow> exn + export_closure" where
  "export_decorator process_signature signature kws =
     (case process_signature signature PyNone of
        Inl e \<Rightarrow> Inl e
      | Inr function_signature \<Rightarrow> Inr (internal_export function_signature kws))"

subsection \<open>resolve_argtypes\<close>

text \<open>
  What the code reads of a Python function object: \<open>__name__\<close>,
  \<open>__code__.co_argcount\<close>, the argument names \<open>inspect.getargspec(f).args\<close>, and the
  optional attribute \<open>_numba_compile_only\<close>.
\<close>

record py_function =
  fn_name :: string
  co_argcount :: nat
  argspec_args :: "string list"
  numba_compile_only :: "pyval option"

text \<open>Decimal digits of a number, for the \<open>%d\<close> of the arity message.\<close>

fun str_nat :: "nat \<Rightarrow> string" where
  "str_nat n =
     (if n < 10 then [''0123456789'' ! n]
      else str_nat (n div 10) @ [''0123456789'' ! (n mod 10)])"

text \<open>A list comprehension over a function that may raise: the first exception wins.\<close>

fun map_exn :: "('a \<Rightarrow> exn + 'b) \<Rightarrow> 'a list \<Rightarrow> exn + 'b list" where
  "map_exn f [] = Inr []"
| "map_exn f (x # xs) =
     (case f x of
        Inl e \<Rightarrow> Inl e
      | Inr y \<Rightarrow> (case map_exn f xs of Inl e \<Rightarrow> Inl e | Inr ys \<Rightarrow> Inr (y # ys)))"

definition enumerate :: "'a list \<Rightarrow> (nat \<times> 'a) list" where
  "enumerate xs = zip [0..<length xs] xs"

text \<open>
  The loop of lines 179 to 182: every argument name found in \<open>locals\<close> overwrites
  the type at its position; a position beyond the end of \<open>argtypes\<close> is Python's
  \<open>IndexError\<close>.
\<close>

fun override_locals ::
  "(string, ty) dict \<Rightarrow> (nat \<times> string) list \<Rightarrow> ty list \<Rightarrow> exn + ty list" where
  "override_locals locals_dict [] argtypes = Inr argtypes"
| "override_locals locals_dict ((i, argname) # rest) argtypes =
     (case dict_get locals_dict argname of
        None \<Rightarrow> override_locals locals_dict rest argtypes
      | Some new_type \<Rightarrow>
          (if i < length argtypes
           then override_locals locals_dict rest (argtypes[i := new_type])
           else Inl IndexError))"

text \<open>
  The list that loop leaves when it runs over the names \<open>ns\<close> numbered from
  \<open>k\<close>, written position by position.
\<close>

definition overridden :: "(string, ty) dict \<Rightarrow> string list \<Rightarrow> nat \<Rightarrow> ty list \<Rightarrow> ty list" where
  "overridden d ns k ats =
     map (\<lambda>i. if k \<le> i \<and> i < k + length ns
               then (case dict_get d (ns ! (i - k)) of Some t \<Rightarrow> t | None \<Rightarrow> ats ! i)
               else ats ! i) [0..<length ats]"

text \<open>
  \<open>resolve_argtypes(numba_func, template_signature, args, kwargs, translator_kwargs)\<close>.
  \<open>typemapper\<close> gives, for the environment named in \<open>translator_kwargs\<close>, the
  function \<open>from_python\<close>; \<open>resolve_templates\<close> is
  \<open>typesystem.resolve_templates\<close>. Both are outside this module. The first argument
  is \<open>numba_func.py_func\<close>.
\<close>

definition resolve_argtypes ::
  "(pyval \<Rightarrow> 'v \<Rightarrow> exn + ty) \<Rightarrow>
   (pyval \<Rightarrow> ty \<Rightarrow> string list \<Rightarrow> ty list \<Rightarrow> exn + ('c \<times> ty)) \<Rightarrow>
   py_function \<Rightarrow> ty option \<Rightarrow> 'v list \<Rightarrow> (string, 'v) dict \<Rightarrow> kwdict \<Rightarrow> exn + ty" where
  "resolve_argtypes typemapper resolve_templates py_func template_signature
       args kwargs translator_kwargs =
     (if kwargs \<noteq> [] then Inl (AssertionError ''Keyword arguments are not supported yet'')
      else
        let locals_dict = get_or_none translator_kwargs ''locals'';
            argcount = co_argcount py_func
        in if argcount \<noteq> length args
           then Inl (TypeError
                  (fn_name py_func @ ''() takes exactly '' @ str_nat argcount @ '' ''
                   @ (if argcount = 1 then ''argument'' else ''arguments'')
                   @ '' ('' @ str_nat (length args) @ '' given)''))
           else
             let argnames = argspec_args py_func;
                 from_python = typemapper (get_or_none translator_kwargs ''env'')
             in case map_exn from_python args of
                  Inl e \<Rightarrow> Inl e
                | Inr argtypes \<Rightarrow>
                    (case (case template_signature of
                             None \<Rightarrow> Inr (None, argtypes)
                           | Some t \<Rightarrow>
                               (case resolve_templates locals_dict t argnames argtypes of
                                  Inl e \<Rightarrow> Inl e
                                | Inr (template_context, FunctionType ret sargs c s) \<Rightarrow>
                                    Inr (ret, sargs)
                                | Inr (template_context, other) \<Rightarrow>
                                    Inl (AttributeError ''return_type''))) of
                       Inl e \<Rightarrow> Inl e
                     | Inr (return_type, argtypes) \<Rightarrow>
                         (case locals_dict of
                            PyNone \<Rightarrow> Inr (FunctionType return_type argtypes False False)
                          | PyLocals d \<Rightarrow>
                              (case override_locals d (enumerate argnames) argtypes of
                                 Inl e \<Rightarrow> Inl e
                               | Inr argtypes' \<Rightarrow>
                                   Inr (FunctionType return_type argtypes' False False))
                          | other \<Rightarrow> Inl (TypeError ''locals is not a dictionary''))))"

subsection \<open>compile_function and the specialization cache\<close>

text \<open>
  A callable is a plain Python function or a Numba wrapper holding one in
  \<open>py_func\<close>; \<open>getattr(func, 'py_func', func)\<close> unwraps the latter.
\<close>

datatype callable_obj = PlainFunction py_function | WrappedFunction py_function

fun py_func_of :: "callable_obj \<Rightarrow> py_function" where
  "py_func_of (PlainFunction f) = f"
| "py_func_of (WrappedFunction f) = f"

text \<open>The function environment a finished pipeline run hands back.\<close>

record func_env =
  fe_func :: py_function
  func_signature :: ty
  lfunc :: pyval
  lfunc_pointer :: pyval
  numba_wrapper_func :: pyval

fun signature_args :: "ty \<Rightarrow> ty list" where
  "signature_args (FunctionType ret args c s) = args"
| "signature_args t = []"

fun signature_return_type :: "ty \<Rightarrow> ty option" where
  "signature_return_type (FunctionType ret args c s) = ret"
| "signature_return_type t = None"

type_synonym cache_key = "py_function \<times> ty list \<times> pyval"
type_synonym compiled = "ty \<times> pyval \<times> pyval"

text \<open>
  Modelled from the spec: the function cache \<open>env.specializations\<close> is a class
  outside \<open>src/\<close>. Section 4.2 of the specification gives its two operations:
  \<open>get\<close> is a pure lookup, and \<open>register_specialization\<close> inserts unconditionally,
  overwriting any entry for the same key. The key is the function, the argument types
  and the flags, as \<open>compile_function\<close> passes them to \<open>get_function\<close>; a registered
  artifact is filed under its own function and the argument types of its signature.
\<close>

definition get_function ::
  "(cache_key, compiled) dict \<Rightarrow> py_function \<Rightarrow> ty list \<Rightarrow> pyval \<Rightarrow> compiled option" where
  "get_function function_cache py_func argtypes flags =
     dict_get function_cache (py_func, argtypes, flags)"

text \<open>
  Modelled from the spec: \<open>register_specialization\<close> of the same absent class;
  section 4.2: it inserts unconditionally, overwriting any entry for the same key.
\<close>

definition register_specialization ::
  "(cache_key, compiled) dict \<Rightarrow> func_env \<Rightarrow> (cache_key, compiled) dict" where
  "register_specialization function_cache fe =
     dict_set function_cache
       (fe_func fe, signature_args (func_signature fe), PyNone)
       (func_signature fe, lfunc fe, numba_wrapper_func fe)"

text \<open>
  The environment: the cache, and a log of the calls made to the pipeline. The log
  is not in the source; it records each call of \<open>pipeline.compile2\<close> so that "the
  pipeline was not invoked" can be stated.
\<close>

record environment =
  specializations :: "(cache_key, compiled) dict"
  compile_calls :: "(py_function \<times> ty list) list"

text \<open>
  Lines 132 and 133: \<open>compile_only\<close> is taken from the keywords, else from the
  function's attribute \<open>_numba_compile_only\<close>, else it is \<open>False\<close>.
\<close>

definition compile_kwds :: "py_function \<Rightarrow> kwdict \<Rightarrow> kwdict" where
  "compile_kwds func kwds =
     (let compile_only = (case numba_compile_only func of
                            None \<Rightarrow> PyBool False | Some v \<Rightarrow> v)
      in dict_set kwds ''compile_only''
           (case dict_get kwds ''compile_only'' of None \<Rightarrow> compile_only | Some v \<Rightarrow> v))"

text \<open>
  \<open>compile_function(env, func, argtypes, restype, **kwds)\<close>, with
  \<open>pipeline.compile2\<close> as the parameter \<open>compile2\<close>.
\<close>

definition compile_function ::
  "(py_function \<Rightarrow> pyval \<Rightarrow> ty list \<Rightarrow> kwdict \<Rightarrow> exn + func_env) \<Rightarrow>
   environment \<Rightarrow> callable_obj \<Rightarrow> ty list \<Rightarrow> pyval \<Rightarrow> kwdict \<Rightarrow>
   (exn + compiled) \<times> environment" where
  "compile_function compile2 env func0 argtypes restype kwds0 =
     (let function_cache = specializations env;
          func = py_func_of func0;
          flags = PyNone
      in case get_function function_cache func argtypes flags of
           Some (sig, lfunc', pycall) \<Rightarrow> (Inr (sig, lfunc', pycall), env)
         | None \<Rightarrow>
             (let kwds = compile_kwds func kwds0
              in if get_or_none kwds ''llvm_module'' \<noteq> PyNone
                 then (Inl (AssertionError ''llvm_module''), env)
                 else
                   (let env1 = env \<lparr> compile_calls := compile_calls env @ [(func, argtypes)] \<rparr>
                    in case compile2 func restype argtypes kwds of
                         Inl e \<Rightarrow> (Inl e, env1)
                       | Inr fe \<Rightarrow>
                           (Inr (func_signature fe, lfunc fe, numba_wrapper_func fe),
                            env1 \<lparr> specializations :=
                                     register_specialization function_cache fe \<rparr>))))"


section \<open>exttypes/jitclass.py: building an extension class\<close>

subsection \<open>Struct types, classes and the extension type\<close>

text \<open>
  A struct type has the ordered list \<open>fields\<close> (here \<open>struct_fields\<close>) and the dictionary \<open>fielddict\<close>;
  the builder updates the two separately.
\<close>

record struct_type =
  struct_fields :: "(string \<times> ty) list"
  fielddict :: "(string, ty) dict"

text \<open>\<open>dict(pairs)\<close>: later pairs overwrite earlier ones with the same key.\<close>

definition dict_of :: "('k \<times> 'v) list \<Rightarrow> ('k, 'v) dict" where
  "dict_of kvs = fold (\<lambda>kv d. dict_set d (fst kv) (snd kv)) kvs []"

text \<open>
  Modelled from the spec: \<open>numba.struct\<close> is a class outside \<open>src/\<close>. Section 3 of
  the specification describes an attribute struct as an ordered sequence of (name,
  type) fields, ordered by insertion; so the struct built from a list of fields has
  these fields in the order given, and its \<open>fielddict\<close> is the dictionary of them.
\<close>

definition struct_of :: "(string \<times> ty) list \<Rightarrow> struct_type" where
  "struct_of fs = \<lparr> struct_fields = fs, fielddict = dict_of fs \<rparr>"

text \<open>
  Modelled from the spec: \<open>is_prefix\<close> is a method of that class. Section 4.5: a
  struct \<open>D\<close> is prefix-compatible with \<open>B\<close> iff the first \<open>len(B.fields)\<close> fields
  of \<open>D\<close>, in order, have the names and types of \<open>B.fields\<close>.
\<close>

definition is_prefix :: "struct_type \<Rightarrow> struct_type \<Rightarrow> bool" where
  "is_prefix b d = (take (length (struct_fields b)) (struct_fields d) = struct_fields b)"

text \<open>
  What the builder reads of a Python class: its name (which \<open>%s\<close> prints), its
  \<open>__bases__\<close>, and the values of the attributes \<open>__numba_struct_type\<close>,
  \<open>__numba_vtab_type\<close> and \<open>__numba_method_pointers\<close> as attribute lookup on the
  class finds them (\<open>None\<close> when \<open>hasattr\<close> is false).
\<close>

datatype pyclass =
  PyCls (cls_name: string) (cls_bases: "pyclass list")
        (numba_struct_type: "struct_type option")
        (numba_vtab_type: "struct_type option")
        (numba_method_pointers: "(string \<times> pyval) list option")

record variable =
  var_type :: ty
  promotable_type :: bool

record extension_type =
  py_class :: pyclass
  symtab :: "(string, variable) dict"
  methods :: "(string \<times> ty) list"
  attribute_struct :: "struct_type option"
  vtab_type :: "struct_type option"
  parent_attr_struct :: "struct_type option"
  parent_vtab_type :: "struct_type option"

text \<open>\<open>typesystem.ExtensionType(py_class)\<close>: a fresh extension type.\<close>

definition new_extension_type :: "pyclass \<Rightarrow> extension_type" where
  "new_extension_type c =
     \<lparr> py_class = c, symtab = [], methods = [], attribute_struct = None,
       vtab_type = None, parent_attr_struct = None, parent_vtab_type = None \<rparr>"

text \<open>
  Modelled from the spec: \<open>add_method\<close> is a method of \<open>ExtensionType\<close>, outside
  \<open>src/\<close>. Section 3 gives the extension type an ordered method list of (name,
  signature) pairs, and the vtable order law of section 8 keeps an overridden method
  at its index: a new name is appended, a known name keeps its place and takes the
  signature given.
\<close>

definition add_method :: "extension_type \<Rightarrow> string \<Rightarrow> ty \<Rightarrow> extension_type" where
  "add_method et method_name method_signature =
     et \<lparr> methods := dict_set (methods et) method_name method_signature \<rparr>"

text \<open>What a class dictionary holds: a declared attribute type, a method, or else.\<close>

datatype class_entry =
    AttributeType ty
  | Method py_function
  | CompiledMethod pyval
  | OtherEntry pyval

subsection \<open>Attribute inheritance\<close>


text \<open>
  \<open>verify_base_class_compatibility\<close>: the loop over \<open>cls.__bases__\<close>, with the
  list \<open>bases\<close> that starts as \<open>[cls]\<close> and grows by every accepted base.
\<close>

fun verify_bases ::
  "pyclass list \<Rightarrow> pyclass list \<Rightarrow> struct_type \<Rightarrow> struct_type \<Rightarrow> exn + unit" where
  "verify_bases bases [] st vt = Inr ()"
| "verify_bases bases (base # rest) st vt =
     (case numba_struct_type base of
        None \<Rightarrow> verify_bases bases rest st vt
      | Some base_struct \<Rightarrow>
          (let attr_prefix = is_prefix base_struct st
           in case numba_vtab_type base of
                None \<Rightarrow> Inl (AttributeError ''__numba_vtab_type'')
              | Some base_vtab \<Rightarrow>
                  (let method_prefix = is_prefix base_vtab vt
                   in if \<not> attr_prefix \<or> \<not> method_prefix
                      then Inl (NumbaError
                             (''Multiple incompatible base classes found: ''
                              @ cls_name base @ '' and '' @ cls_name (last bases)))
                      else verify_bases (bases @ [base]) rest st vt)))"

definition verify_base_class_compatibility ::
  "pyclass \<Rightarrow> struct_type \<Rightarrow> struct_type \<Rightarrow> exn + unit" where
  "verify_base_class_compatibility c st vt = verify_bases [c] (cls_bases c) st vt"


text \<open>
  The loop of lines 213 to 219 over the fields of the parent's vtable type. A field
  type is a pointer to a function type (\<open>base_type\<close> reads through the pointer);
  \<open>args[0] = ext_type\<close> on an empty list is \<open>IndexError\<close>; the new signature is the
  return type called on the arguments, a fresh function type.
\<close>

fun inherit_methods :: "extension_type \<Rightarrow> (string \<times> ty) list \<Rightarrow> exn + extension_type" where
  "inherit_methods et [] = Inr et"
| "inherit_methods et ((method_name, Pointer (FunctionType ret args is_class is_static)) # rest) =
     (case (if \<not> (is_class \<or> is_static)
            then (case args of
                    [] \<Rightarrow> Inl IndexError
                  | a # as \<Rightarrow> Inr (Extension (cls_name (py_class et)) # as))
            else Inr args) of
        Inl e \<Rightarrow> Inl e
      | Inr args' \<Rightarrow>
          (case ret of
             None \<Rightarrow> Inl (TypeError ''NoneType object is not callable'')
           | Some r \<Rightarrow>
               inherit_methods
                 (add_method et method_name (FunctionType (Some r) args' False False))
                 rest))"
| "inherit_methods et ((method_name, other) # rest) = Inl (AttributeError ''base_type'')"

text \<open>
  The signature the loop enters for one field of the parent's vtable type.
\<close>

fun inherited_signature :: "string \<Rightarrow> ty \<Rightarrow> ty" where
  "inherited_signature cn (Pointer (FunctionType ret args is_class is_static)) =
     FunctionType ret (if is_class \<or> is_static then args else Extension cn # tl args)
       False False"
| "inherited_signature cn t = t"

text \<open>
  \<open>inherit_attributes(ext_type, class_dict)\<close>; the class dictionary is not read.
\<close>

definition inherit_attributes :: "extension_type \<Rightarrow> exn + extension_type" where
  "inherit_attributes et =
     (let c = py_class et
      in case numba_struct_type c of
           None \<Rightarrow> Inr et
         | Some st \<Rightarrow>
             (case numba_vtab_type c of
                None \<Rightarrow> Inl (AttributeError ''__numba_vtab_type'')
              | Some vt \<Rightarrow>
                  (case verify_base_class_compatibility c st vt of
                     Inl e \<Rightarrow> Inl e
                   | Inr u \<Rightarrow>
                       (let s = struct_of (struct_fields st);
                            et1 = et \<lparr> attribute_struct := Some s \<rparr>;
                            et2 = fold (\<lambda>f e. e \<lparr> symtab := dict_set (symtab e) (fst f)
                                       \<lparr> var_type = snd f, promotable_type = False \<rparr> \<rparr>)
                                    (struct_fields s) et1
                        in case inherit_methods et2 (struct_fields vt) of
                             Inl e \<Rightarrow> Inl e
                           | Inr et3 \<Rightarrow>
                               Inr (et3 \<lparr> parent_attr_struct := Some st,
                                         parent_vtab_type := Some vt \<rparr>)))))"

text \<open>
  \<open>process_class_attribute_types\<close>: every type in the class dictionary is declared,
  in the order \<open>iteritems\<close> enumerates the class dictionary.
\<close>

definition process_class_attribute_types ::
  "((string, class_entry) dict \<Rightarrow> (string \<times> class_entry) list) \<Rightarrow>
   extension_type \<Rightarrow> (string, class_entry) dict \<Rightarrow> extension_type" where
  "process_class_attribute_types iteritems et class_dict =
     fold (\<lambda>kv e. case snd kv of
                     AttributeType t \<Rightarrow>
                       e \<lparr> symtab := dict_set (symtab e) (fst kv)
                                        \<lparr> var_type = t, promotable_type = False \<rparr> \<rparr>
                   | other \<Rightarrow> e)
          (iteritems class_dict) et"

subsection \<open>The attribute struct\<close>

text \<open>
  \<open>_construct_native_attribute_struct(ext_type)\<close>. The symbol table is a Python 2
  dictionary, and \<open>iteritems\<close> enumerates it in hash-table order, which the order of
  insertion does not determine: the parameter \<open>iteritems\<close> is that enumeration.
  Without an inherited struct the fields are passed as keywords, an unordered struct
  whose layout the absent class chooses: \<open>struct_kw\<close> is that constructor. With an
  inherited struct, the loop collects the entries whose name the struct's
  \<open>fielddict\<close> does not hold yet, entering each into the \<open>fielddict\<close>, and extends
  \<open>fields\<close> by the fields of the struct built from the collected list. That struct
  is built by the absent class from a list of fields; the comment on line 154 expects
  its fields sorted by rank, section 3 of the specification describes them as kept in
  the order given. The function \<open>struct_list\<close>, which gives the fields of the struct
  built from a list, is therefore a parameter.
\<close>

definition construct_native_attribute_struct ::
  "((string, ty) dict \<Rightarrow> struct_type) \<Rightarrow>
   ((string \<times> ty) list \<Rightarrow> (string \<times> ty) list) \<Rightarrow>
   ((string, variable) dict \<Rightarrow> (string \<times> variable) list) \<Rightarrow>
   extension_type \<Rightarrow> extension_type" where
  "construct_native_attribute_struct struct_kw struct_list iteritems et =
     (let attrs = dict_of (map (\<lambda>nv. (fst nv, var_type (snd nv))) (iteritems (symtab et)))
      in case attribute_struct et of
           None \<Rightarrow> et \<lparr> attribute_struct := Some (struct_kw attrs) \<rparr>
         | Some s \<Rightarrow>
             (let (new_fields, fd) =
                    fold (\<lambda>nv (fs, fd).
                            if dict_get fd (fst nv) = None
                            then (fs @ [(fst nv, var_type (snd nv))],
                                  dict_set fd (fst nv) (var_type (snd nv)))
                            else (fs, fd))
                         (iteritems (symtab et)) ([], fielddict s);
                  sorted_fields = struct_list new_fields
              in et \<lparr> attribute_struct :=
                        Some \<lparr> struct_fields = struct_fields s @ sorted_fields,
                               fielddict = fd \<rparr> \<rparr>))"

text \<open>
  The order in which CPython 2 enumerates a dictionary of at most five string keys
  of one character each that fall into different slots of its initial table of eight
  slots: by ascending slot, whatever the order of insertion. The slot of a key is
  given by the low three bits of its hash, and the hash of a one-character string
  ends in the bits of the character code with the lowest bit flipped: \<open>y\<close> (121)
  has slot 0, \<open>x\<close> (120) slot 1, \<open>z\<close> (122) slot 3.
\<close>

definition hash_slot :: "string \<Rightarrow> nat" where
  "hash_slot k =
     (case k of
        [c] \<Rightarrow> (let n = (of_char c :: nat)
                in (if even n then n + 1 else n - 1) mod 8)
      | other \<Rightarrow> 0)"

definition slot_order :: "(string, 'v) dict \<Rightarrow> (string \<times> 'v) list" where
  "slot_order d = sort_key (\<lambda>kv. hash_slot (fst kv)) d"

subsection \<open>Compiling the methods\<close>

text \<open>
  The state \<open>_compile_methods\<close> works on: the class dictionary, the two output
  lists, and a log of the method names handed to the pipeline (the log is not in the
  source; it records each call of \<open>pipeline.compile2\<close>).
\<close>

record build_state =
  class_dict :: "(string, class_entry) dict"
  lmethods :: "pyval list"
  method_pointers :: "(string \<times> pyval) list"
  compiled_names :: "string list"

text \<open>
  The body of the loop of \<open>_compile_methods\<close>, for the method at index \<open>i\<close>. A
  method whose name is not in the class dictionary is inherited: the parent's table
  must be there (first assertion), is indexed at \<open>i\<close> (\<open>IndexError\<close> beyond its
  end), must name the same method (second assertion), and its pointer is appended. A
  method of the class's own is compiled by \<open>compile2\<close> with its name passed as
  the keyword \<open>name\<close> beside the flags (a flag of that name is Python's
  \<open>TypeError\<close> for a keyword given twice), and its entry in the class dictionary
  replaced by the compiled wrapper.
\<close>

definition compile_method ::
  "(py_function \<Rightarrow> pyval \<Rightarrow> ty list \<Rightarrow> kwdict \<Rightarrow> exn + func_env) \<Rightarrow>
   (string \<times> pyval) list option \<Rightarrow> kwdict \<Rightarrow> nat \<times> string \<times> ty \<Rightarrow>
   build_state \<Rightarrow> exn + build_state" where
  "compile_method compile2 parent_method_pointers flags m st =
     (let i = fst m; method_name = fst (snd m); signature = snd (snd m)
      in case dict_get (class_dict st) method_name of
           None \<Rightarrow>
             (case parent_method_pointers of
                None \<Rightarrow> Inl (AssertionError ''parent_method_pointers is not None'')
              | Some pointers \<Rightarrow>
                  (if i < length pointers
                   then (let (name, p) = pointers ! i
                         in if name = method_name
                            then Inr (st \<lparr> method_pointers :=
                                            method_pointers st @ [(method_name, p)] \<rparr>)
                            else Inl (AssertionError ''name == method_name''))
                   else Inl IndexError))
         | Some (Method py_func) \<Rightarrow>
             (case signature of
                FunctionType ret args c s \<Rightarrow>
                  (if dict_get flags ''name'' \<noteq> None
                   then Inl (TypeError ''got multiple values for keyword argument name'')
                   else
                     (case compile2 py_func
                             (case ret of None \<Rightarrow> PyNone | Some t \<Rightarrow> PyType t)
                             args (dict_set flags ''name'' (PyStr (fn_name py_func))) of
                        Inl e \<Rightarrow> Inl e
                      | Inr fe \<Rightarrow>
                          Inr (st \<lparr> lmethods := lmethods st @ [lfunc fe],
                                    method_pointers :=
                                      method_pointers st @ [(method_name, lfunc_pointer fe)],
                                    class_dict :=
                                      dict_set (class_dict st) method_name
                                        (CompiledMethod (numba_wrapper_func fe)),
                                    compiled_names := compiled_names st @ [method_name] \<rparr>)))
              | other \<Rightarrow> Inl (AttributeError ''return_type''))
         | Some other \<Rightarrow> Inl (AttributeError ''py_func''))"

text \<open>The loop over \<open>enumerate(ext_type.methods)\<close>: the first exception ends it.\<close>

fun compile_methods_loop ::
  "(py_function \<Rightarrow> pyval \<Rightarrow> ty list \<Rightarrow> kwdict \<Rightarrow> exn + func_env) \<Rightarrow>
   (string \<times> pyval) list option \<Rightarrow> kwdict \<Rightarrow> (nat \<times> string \<times> ty) list \<Rightarrow>
   build_state \<Rightarrow> exn + build_state" where
  "compile_methods_loop compile2 parent_method_pointers flags [] st = Inr st"
| "compile_methods_loop compile2 parent_method_pointers flags (m # rest) st =
     (case compile_method compile2 parent_method_pointers flags m st of
        Inl e \<Rightarrow> Inl e
      | Inr st1 \<Rightarrow> compile_methods_loop compile2 parent_method_pointers flags rest st1)"

text \<open>
  \<open>_compile_methods(class_dict, env, ext_type, lmethods, method_pointers, flags)\<close>:
  the parent's table is the class attribute \<open>__numba_method_pointers\<close>, \<open>None\<close> when
  the class has none.
\<close>

definition compile_methods ::
  "(py_function \<Rightarrow> pyval \<Rightarrow> ty list \<Rightarrow> kwdict \<Rightarrow> exn + func_env) \<Rightarrow>
   extension_type \<Rightarrow> kwdict \<Rightarrow> build_state \<Rightarrow> exn + build_state" where
  "compile_methods compile2 et flags st =
     compile_methods_loop compile2 (numba_method_pointers (py_class et)) flags
       (enumerate (methods et)) st"

section \<open>Example inputs\<close>

text \<open>Values the closed instances below are stated on.\<close>

abbreviation i4 :: ty where "i4 \<equiv> Named ''i4''"
abbreviation f8 :: ty where "f8 \<equiv> Named ''f8''"

abbreviation add_fn :: py_function where
  "add_fn \<equiv> \<lparr> fn_name = ''add'', co_argcount = 2, argspec_args = [''a'', ''b''],
              numba_compile_only = None \<rparr>"

abbreviation add_compiled :: compiled where
  "add_compiled \<equiv> (FunctionType (Some i4) [i4, i4] False False, PyObject 1, PyObject 3)"

abbreviation add_env :: func_env where
  "add_env \<equiv> \<lparr> fe_func = add_fn,
               func_signature = FunctionType (Some i4) [i4, i4] False False,
               lfunc = PyObject 1, lfunc_pointer = PyObject 2,
               numba_wrapper_func = PyObject 3 \<rparr>"

abbreviation empty_environment :: environment where
  "empty_environment \<equiv> \<lparr> specializations = [], compile_calls = [] \<rparr>"

abbreviation add_environment :: environment where
  "add_environment \<equiv> \<lparr> specializations = [((add_fn, [i4, i4], PyNone), add_compiled)],
                       compile_calls = [(add_fn, [i4, i4])] \<rparr>"



abbreviation base_vtab :: struct_type where
  "base_vtab \<equiv> struct_of
     [(''area'', Pointer (FunctionType (Some f8) [Extension ''Base''] False False)),
      (''make'', Pointer (FunctionType (Some i4) [i4] False True))]"

abbreviation class_Base :: pyclass where
  "class_Base \<equiv> PyCls ''Base'' [] (Some (struct_of [(''x'', f8)])) (Some base_vtab)
                  (Some [(''area'', PyObject 10), (''make'', PyObject 11)])"

abbreviation class_Child :: pyclass where
  "class_Child \<equiv> PyCls ''Child'' [class_Base] (Some (struct_of [(''x'', f8)]))
                   (Some base_vtab)
                   (Some [(''area'', PyObject 10), (''make'', PyObject 11)])"

abbreviation child_inherited :: extension_type where
  "child_inherited \<equiv>
     \<lparr> py_class = class_Child,
       symtab = [(''x'', \<lparr> var_type = f8, promotable_type = False \<rparr>)],
       methods = [(''area'', FunctionType (Some f8) [Extension ''Child''] False False),
                  (''make'', FunctionType (Some i4) [i4] False False)],
       attribute_struct = Some (struct_of [(''x'', f8)]),
       vtab_type = None,
       parent_attr_struct = Some (struct_of [(''x'', f8)]),
       parent_vtab_type = Some base_vtab \<rparr>"

abbreviation area_fn :: py_function where
  "area_fn \<equiv> \<lparr> fn_name = ''area'', co_argcount = 1, argspec_args = [''self''],
               numba_compile_only = None \<rparr>"

abbreviation method_pipeline :: "py_function \<Rightarrow> pyval \<Rightarrow> ty list \<Rightarrow> kwdict \<Rightarrow> exn + func_env" where
  "method_pipeline \<equiv> \<lambda>f r a k.
     Inr \<lparr> fe_func = f, func_signature = FunctionType (Some f8) a False False,
           lfunc = PyObject 20, lfunc_pointer = PyObject 21,
           numba_wrapper_func = PyObject 22 \<rparr>"

abbreviation child_build_state :: build_state where
  "child_build_state \<equiv> \<lparr> class_dict = [(''area'', Method area_fn)], lmethods = [],
                         method_pointers = [], compiled_names = [] \<rparr>"

abbreviation class_Orphan :: pyclass where
  "class_Orphan \<equiv> PyCls ''Child'' [class_Base] (Some (struct_of [(''x'', f8)]))
                    (Some base_vtab) None"

abbreviation make_fn :: py_function where
  "make_fn \<equiv> \<lparr> fn_name = ''make'', co_argcount = 1, argspec_args = [''n''],
               numba_compile_only = None \<rparr>"

abbreviation override_build_state :: build_state where
  "override_build_state \<equiv> \<lparr> class_dict = [(''make'', Method make_fn)], lmethods = [],
                            method_pointers = [], compiled_names = [] \<rparr>"

section \<open>Properties\<close>

text \<open>
  C10. A call of \<open>jit\<close> whose first argument is a constructed function type and whose
  \<open>argtypes\<close> keyword is not \<open>None\<close> raises the \<open>TypeError\<close> of line 315, whatever
  the backend, the target, the other keywords and the collaborators are: neither the
  class builder nor a jitter is reached.
\<close>

theorem jit_function_type_with_argtypes:
  "argtypes \<noteq> PyNone \<Longrightarrow>
   jit get_environment create_extension process_signature
       (PyType (FunctionType ret args c s)) argtypes backend target nopython kws
   = Inl (TypeError ''Cannot use both calling syntax and argtypes keyword'')"
  by (simp add: jit_def Let_def)

theorem jit_function_type_with_argtypes_witness:
  "PyTypes [Named ''f8''] \<noteq> PyNone \<and>
   jit (\<lambda>n. PyObject 0) (\<lambda>e c k. Inr c) (\<lambda>s n. Inl (External ''syntax''))
       (PyType (FunctionType (Some (Named ''f8'')) [Named ''f8''] False False))
       (PyTypes [Named ''f8'']) ''ast'' ''cpu'' (PyBool False) []
   = (Inl (TypeError ''Cannot use both calling syntax and argtypes keyword'')
        :: exn + string jit_result)"
  using jit_function_type_with_argtypes
          [of "PyTypes [Named ''f8'']" "\<lambda>n. PyObject 0" "\<lambda>e c k. Inr c"
              "\<lambda>s n. Inl (External ''syntax'')" "Some (Named ''f8'')" "[Named ''f8'']"
              False False "''ast''" "''cpu''" "PyBool False" "[]"]
  by simp

subsection \<open>The specialization cache\<close>

lemma dict_get_dict_set:
  "dict_get (dict_set d k v) k' = (if k' = k then Some v else dict_get d k')"
  by (induction d) (auto simp: dict_get_def)










text \<open>
  C2. When the pipeline raises, \<open>compile_function\<close> raises the same exception;
  whenever \<open>compile_function\<close> raises, the cache is what it was before the call; and
  the cache differs after a call only when the pipeline returned a function
  environment, the call returned its triple, and the cache is the old one with that
  one registration.
\<close>

theorem compile_function_failure_leaves_cache:
  "(get_function (specializations env) (py_func_of func) argtypes PyNone = None \<longrightarrow>
      get_or_none (compile_kwds (py_func_of func) kwds) ''llvm_module'' = PyNone \<longrightarrow>
      compile2 (py_func_of func) restype argtypes (compile_kwds (py_func_of func) kwds)
        = Inl e \<longrightarrow>
      fst (compile_function compile2 env func argtypes restype kwds) = Inl e)
   \<and> (\<forall>e'. fst (compile_function compile2 env func argtypes restype kwds) = Inl e' \<longrightarrow>
         specializations (snd (compile_function compile2 env func argtypes restype kwds))
           = specializations env)
   \<and> (specializations (snd (compile_function compile2 env func argtypes restype kwds))
         \<noteq> specializations env \<longrightarrow>
       (\<exists>fe. compile2 (py_func_of func) restype argtypes (compile_kwds (py_func_of func) kwds)
               = Inr fe
           \<and> fst (compile_function compile2 env func argtypes restype kwds)
               = Inr (func_signature fe, lfunc fe, numba_wrapper_func fe)
           \<and> specializations (snd (compile_function compile2 env func argtypes restype kwds))
               = register_specialization (specializations env) fe))"
  by (auto simp: compile_function_def Let_def split: option.splits sum.splits)

theorem compile_function_failure_leaves_cache_witness:
  "get_function (specializations add_environment) (py_func_of (PlainFunction add_fn))
     [f8] PyNone = None
   \<and> get_or_none (compile_kwds (py_func_of (PlainFunction add_fn)) []) ''llvm_module''
     = PyNone
   \<and> fst (compile_function (\<lambda>f r a k. Inl (External ''CompilationError'')) add_environment
            (PlainFunction add_fn) [f8] PyNone [])
     = Inl (External ''CompilationError'')
   \<and> specializations
       (snd (compile_function (\<lambda>f r a k. Inl (External ''CompilationError''))
               add_environment (PlainFunction add_fn) [f8] PyNone []))
     = specializations add_environment
   \<and> specializations
       (snd (compile_function (\<lambda>f r a k. Inr add_env) empty_environment
               (PlainFunction add_fn) [i4, i4] PyNone []))
     \<noteq> specializations empty_environment"
  using compile_function_failure_leaves_cache
    [where env = add_environment and func = "PlainFunction add_fn"
       and argtypes = "[f8]" and e = "External ''CompilationError''"
       and ?compile2.0 = "\<lambda>f r a k. Inl (External ''CompilationError'')"
       and restype = PyNone and kwds = "[]"]
  by (simp add: get_function_def dict_get_def compile_kwds_def get_or_none_def
        compile_function_def register_specialization_def Let_def)

subsection \<open>Resolving the argument types\<close>

text \<open>
  C5 (as amended). For every call without keyword arguments whose number of
  positional arguments differs from \<open>co_argcount\<close>, \<open>resolve_argtypes\<close> raises the
  \<open>TypeError\<close> of line 162 that reports the two counts, whatever the type mapper and
  the template resolver would do: no argument's type is looked at, so the failure is
  the same when every value is unresolvable.
\<close>

theorem resolve_argtypes_arity:
  "kwargs = [] \<Longrightarrow> co_argcount f \<noteq> length args \<Longrightarrow>
   resolve_argtypes typemapper resolve_templates f template_signature args kwargs tk
   = Inl (TypeError
       (fn_name f @ ''() takes exactly '' @ str_nat (co_argcount f) @ '' ''
        @ (if co_argcount f = 1 then ''argument'' else ''arguments'')
        @ '' ('' @ str_nat (length args) @ '' given)''))"
  by (simp add: resolve_argtypes_def Let_def)

theorem resolve_argtypes_arity_witness:
  "([] :: (string, pyval) dict) = [] \<and> co_argcount add_fn \<noteq> length [PyObject 7] \<and>
   resolve_argtypes (\<lambda>env v. Inl (External ''UnsupportedValueError''))
     (\<lambda>l t n a. (Inl (External ''unused'') :: exn + (unit \<times> ty)))
     add_fn None [PyObject 7] [] []
   = Inl (TypeError ''add() takes exactly 2 arguments (1 given)'')"
  using resolve_argtypes_arity
    [where kwargs = "[] :: (string, pyval) dict" and f = add_fn and args = "[PyObject 7]"
       and typemapper = "\<lambda>env v. Inl (External ''UnsupportedValueError'')"
       and resolve_templates = "\<lambda>l t n a. (Inl (External ''unused'') :: exn + (unit \<times> ty))"
       and template_signature = None and tk = "[]"]
  by simp

text \<open>
  C5 as stated fails when the call also carries a keyword argument: the assertion of
  line 152 comes first, and the call with one positional argument instead of two
  raises \<open>AssertionError\<close>, not the arity error.
\<close>

theorem resolve_argtypes_kwargs_counterexample:
  "resolve_argtypes (\<lambda>env v. Inl (External ''UnsupportedValueError''))
     (\<lambda>l t n a. (Inl (External ''unused'') :: exn + (unit \<times> ty)))
     add_fn None [PyObject 7] [(''b'', PyObject 8)] []
   = Inl (AssertionError ''Keyword arguments are not supported yet'')"
  by (simp add: resolve_argtypes_def)

lemma override_locals_zip:
  "k + length ns \<le> length ats \<Longrightarrow>
   override_locals d (zip [k..<k + length ns] ns) ats = Inr (overridden d ns k ats)"
proof (induction ns arbitrary: k ats)
  case Nil
  then show ?case by (auto simp: overridden_def intro!: nth_equalityI)
next
  case (Cons x xs)
  have z: "zip [k..<k + length (x # xs)] (x # xs) = (k, x) # zip [Suc k..<Suc k + length xs] xs"
    by (simp add: upt_conv_Cons del: upt_Suc)
  have step: "override_locals d (zip [k..<k + length (x # xs)] (x # xs)) ats
      = (case dict_get d x of
           None \<Rightarrow> override_locals d (zip [Suc k..<Suc k + length xs] xs) ats
         | Some t \<Rightarrow> override_locals d (zip [Suc k..<Suc k + length xs] xs) (ats[k := t]))"
    using Cons.prems by (simp only: z override_locals.simps) (simp split: option.splits)
  show ?case
  proof (cases "dict_get d x")
    case None
    have "override_locals d (zip [Suc k..<Suc k + length xs] xs) ats
          = Inr (overridden d xs (Suc k) ats)"
      using Cons.prems by (intro Cons.IH) simp
    moreover have "overridden d xs (Suc k) ats = overridden d (x # xs) k ats"
      using None by (auto simp: overridden_def nth_Cons' intro!: nth_equalityI)
    ultimately show ?thesis using None by (simp only: step option.case)
  next
    case (Some t)
    have "override_locals d (zip [Suc k..<Suc k + length xs] xs) (ats[k := t])
          = Inr (overridden d xs (Suc k) (ats[k := t]))"
      using Cons.prems by (intro Cons.IH) simp
    moreover have "overridden d xs (Suc k) (ats[k := t]) = overridden d (x # xs) k ats"
      using Some Cons.prems
      by (auto simp: overridden_def nth_Cons' nth_list_update intro!: nth_equalityI
            split: option.splits)
    ultimately show ?thesis using Some by (simp only: step option.case)
  qed
qed


text \<open>
  C7. When a template signature is resolved and \<open>locals\<close> is a dictionary, the
  signature \<open>resolve_argtypes\<close> returns has, at every position whose argument name
  \<open>locals\<close> holds, the type \<open>locals\<close> gives for that name, and at every other
  position the type of the unified signature; its return type is the unified one.
  (The hypotheses say that the call gets that far: no keyword arguments, the right
  count, resolvable values, a template that unifies, and no more argument names than
  unified argument types.)
\<close>

theorem resolve_argtypes_locals_override:
  assumes "kwargs = []"
    and "co_argcount f = length args"
    and "map_exn (typemapper (get_or_none tk ''env'')) args = Inr argtypes"
    and "get_or_none tk ''locals'' = PyLocals d"
    and "resolve_templates (PyLocals d) tmpl (argspec_args f) argtypes
           = Inr (ctx, FunctionType ret unified c s)"
    and "length (argspec_args f) \<le> length unified"
  shows "\<exists>resolved.
           resolve_argtypes typemapper resolve_templates f (Some tmpl) args kwargs tk
             = Inr (FunctionType ret resolved False False)
           \<and> length resolved = length unified
           \<and> (\<forall>i < length unified.
                 resolved ! i =
                   (if i < length (argspec_args f)
                    then (case dict_get d (argspec_args f ! i) of
                            Some t \<Rightarrow> t | None \<Rightarrow> unified ! i)
                    else unified ! i))"
proof -
  have ov: "override_locals d (enumerate (argspec_args f)) unified
            = Inr (overridden d (argspec_args f) 0 unified)"
    using override_locals_zip [of 0 "argspec_args f" unified d] assms(6)
    by (simp add: enumerate_def)
  have "resolve_argtypes typemapper resolve_templates f (Some tmpl) args kwargs tk
          = Inr (FunctionType ret (overridden d (argspec_args f) 0 unified) False False)"
    using assms(1-5) ov by (simp add: resolve_argtypes_def Let_def)
  moreover have "length (overridden d (argspec_args f) 0 unified) = length unified"
    by (simp add: overridden_def)
  moreover have "\<forall>i < length unified.
      overridden d (argspec_args f) 0 unified ! i =
        (if i < length (argspec_args f)
         then (case dict_get d (argspec_args f ! i) of Some t \<Rightarrow> t | None \<Rightarrow> unified ! i)
         else unified ! i)"
    by (auto simp: overridden_def split: option.splits)
  ultimately show ?thesis by blast
qed

theorem resolve_argtypes_locals_override_witness:
  "([] :: (string, pyval) dict) = []
   \<and> co_argcount add_fn = length [PyInt 1, PyInt 2]
   \<and> map_exn ((\<lambda>env v. Inr i4) (get_or_none [(''locals'', PyLocals [(''b'', f8)])] ''env''))
        [PyInt 1, PyInt 2] = Inr [i4, i4]
   \<and> get_or_none [(''locals'', PyLocals [(''b'', f8)])] ''locals'' = PyLocals [(''b'', f8)]
   \<and> length (argspec_args add_fn) \<le> length [i4, i4]
   \<and> resolve_argtypes (\<lambda>env v. Inr i4)
        (\<lambda>l t n a. Inr ((), FunctionType (Some i4) a False False))
        add_fn (Some (FunctionType (Some (Named ''T'')) [Named ''T'', Named ''T''] False False))
        [PyInt 1, PyInt 2] [] [(''locals'', PyLocals [(''b'', f8)])]
      = Inr (FunctionType (Some i4) [i4, f8] False False)"
  using resolve_argtypes_locals_override
    [where kwargs = "[] :: (string, pyval) dict" and f = add_fn
       and args = "[PyInt 1, PyInt 2]" and typemapper = "\<lambda>env v. Inr i4"
       and tk = "[(''locals'', PyLocals [(''b'', f8)])]" and argtypes = "[i4, i4]"
       and d = "[(''b'', f8)]"
       and resolve_templates = "\<lambda>l t n a. Inr ((), FunctionType (Some i4) a False False)"
       and tmpl = "FunctionType (Some (Named ''T'')) [Named ''T'', Named ''T''] False False"
       and ctx = "()" and ret = "Some i4" and unified = "[i4, i4]" and c = False and s = False]
  by (simp add: resolve_argtypes_def get_or_none_def dict_get_def enumerate_def Let_def)


subsection \<open>The bytecode backend\<close>

lemma jit_targets_bytecode: "jit_targets (''cpu'', ''bytecode'') = Some Not_implemented"
  by (simp add: jit_targets_def)

lemma get_or_none_dict_set:
  "get_or_none (dict_set d k v) k' = (if k' = k then v else get_or_none d k')"
  by (simp add: get_or_none_def dict_get_dict_set)

text \<open>
  C8 (as amended). With the backend \<open>bytecode\<close>: the decorator \<open>export\<close> returns
  for a signature that parses raises \<open>NotImplementedError\<close> when applied to a
  function and leaves the export maps untouched; \<open>autojit\<close>, called with no template
  signature or with a type as template signature, returns \<open>_not_implemented\<close>, which
  raises \<open>NotImplementedError\<close> when applied; and \<open>jit\<close> for the target \<open>cpu\<close>
  raises \<open>NotImplementedError\<close> at once, provided its first argument is not a class,
  is not a function type together with \<open>argtypes\<close>, and, when it is a signature
  string that \<open>jit\<close> parses, parses.
\<close>

theorem bytecode_backend_raises:
  "(dict_get kws ''backend'' = Some (PyStr ''bytecode'') \<longrightarrow>
      process_signature' signature PyNone = Inr function_signature \<longrightarrow>
      (\<exists>c. export_decorator process_signature' signature kws = Inr c
         \<and> iexport run_pipeline build_wrapper_module c func exports
             = (Inl (NotImplementedError
                  ''Bytecode translation has been removed for exported functions.''),
                exports)))
   \<and> (\<not> truthy template_signature \<or> is_Type template_signature \<longrightarrow>
        autojit get_environment template_signature ''bytecode'' target nopython locals_arg kwargs
          = Inr NotImplementedFunction
        \<and> apply_autojit NotImplementedFunction f
          = Inl (NotImplementedError ''Bytecode backend is no longer supported.''))
   \<and> ((\<forall>cls. restype \<noteq> PyClass cls) \<longrightarrow>
      (\<forall>ret args c s. restype = PyType (FunctionType ret args c s) \<longrightarrow> argtypes = PyNone) \<longrightarrow>
      (\<forall>s. restype = PyStr s \<longrightarrow> argtypes = PyNone \<longrightarrow>
           (\<exists>sig. process_signature s (get_or_none kws0 ''name'') = Inr sig)) \<longrightarrow>
      jit get_environment create_extension process_signature
          restype argtypes ''bytecode'' ''cpu'' nopython kws0
        = Inl (NotImplementedError ''Bytecode backend is no longer supported.''))"
proof (intro conjI impI)
  assume "dict_get kws ''backend'' = Some (PyStr ''bytecode'')"
    and "process_signature' signature PyNone = Inr function_signature"
  then show "\<exists>c. export_decorator process_signature' signature kws = Inr c
         \<and> iexport run_pipeline build_wrapper_module c func exports
             = (Inl (NotImplementedError
                  ''Bytecode translation has been removed for exported functions.''),
                exports)"
    by (simp add: export_decorator_def internal_export_def iexport_def)
next
  assume "\<not> truthy template_signature \<or> is_Type template_signature"
  then show "autojit get_environment template_signature ''bytecode'' target nopython
               locals_arg kwargs = Inr NotImplementedFunction"
    by (auto simp: autojit_def)
next
  show "apply_autojit NotImplementedFunction f
          = Inl (NotImplementedError ''Bytecode backend is no longer supported.'')"
    by (simp add: not_implemented_def)
next
  assume nc: "\<forall>cls. restype \<noteq> PyClass cls"
    and nf: "\<forall>ret args c s. restype = PyType (FunctionType ret args c s) \<longrightarrow> argtypes = PyNone"
    and ps: "\<forall>s. restype = PyStr s \<longrightarrow> argtypes = PyNone \<longrightarrow>
           (\<exists>sig. process_signature s (get_or_none kws0 ''name'') = Inr sig)"
  show "jit get_environment create_extension process_signature
          restype argtypes ''bytecode'' ''cpu'' nopython kws0
        = Inl (NotImplementedError ''Bytecode backend is no longer supported.'')"
  proof (cases restype)
    case (PyClass x)
    then show ?thesis using nc by simp
  next
    case (PyType t)
    then show ?thesis using nf
      by (cases t) (simp_all add: jit_def Let_def jit_targets_bytecode not_implemented_def)
  next
    case (PyStr x)
    then show ?thesis using ps
      by (auto simp: jit_def Let_def jit_targets_bytecode not_implemented_def
            get_or_none_dict_set split: sum.splits)
  qed (simp_all add: jit_def Let_def jit_targets_bytecode not_implemented_def)
qed

theorem bytecode_backend_raises_witness:
  "dict_get [(''backend'', PyStr ''bytecode'')] ''backend'' = Some (PyStr ''bytecode'')
   \<and> iexport (\<lambda>f g m. Inr ()) (\<lambda>n. Inr PyNone)
       (internal_export (PyStr ''add'', PyType i4, PyTypes [i4, i4])
          [(''backend'', PyStr ''bytecode'')])
       (PyFunction ''add'')
       \<lparr> function_signature_map = [], function_module_map = [],
         function_wrapper_map = [], wrap_exports = False \<rparr>
     = (Inl (NotImplementedError
          ''Bytecode translation has been removed for exported functions.''),
        \<lparr> function_signature_map = [], function_module_map = [],
          function_wrapper_map = [], wrap_exports = False \<rparr>)
   \<and> \<not> truthy PyNone
   \<and> autojit (\<lambda>n. PyObject 0) PyNone ''bytecode'' ''cpu'' (PyBool False) PyNone []
     = Inr NotImplementedFunction
   \<and> jit (\<lambda>n. PyObject 0) (\<lambda>env cls kws. Inr cls)
       (\<lambda>s n. Inr (PyNone, PyType f8, PyTypes [f8]))
       (PyStr ''f8(f8)'') PyNone ''bytecode'' ''cpu'' (PyBool False) []
     = (Inl (NotImplementedError ''Bytecode backend is no longer supported.'')
          :: exn + string jit_result)"
  using bytecode_backend_raises
    [where kws = "[(''backend'', PyStr ''bytecode'')]"
       and process_signature' = "\<lambda>s n. Inr (PyStr ''add'', PyType i4, PyTypes [i4, i4])"
       and signature = "''add i4(i4, i4)''"
       and function_signature = "(PyStr ''add'', PyType i4, PyTypes [i4, i4])"
       and run_pipeline = "\<lambda>f g m. Inr ()" and build_wrapper_module = "\<lambda>n. Inr PyNone"
       and func = "PyFunction ''add''"
       and exports = "\<lparr> function_signature_map = [], function_module_map = [],
                        function_wrapper_map = [], wrap_exports = False \<rparr>"
       and template_signature = PyNone and get_environment = "\<lambda>n. PyObject 0"
       and target = "''cpu''" and nopython = "PyBool False" and locals_arg = PyNone
       and kwargs = "[]" and f = "PyFunction ''add''"
       and restype = "PyStr ''f8(f8)''" and argtypes = PyNone
       and process_signature = "\<lambda>s n. Inr (PyNone, PyType f8, PyTypes [f8])"
       and kws0 = "[]"
       and create_extension = "\<lambda>env cls kws. (Inr cls :: exn + string)"]
  by (simp add: export_decorator_def dict_get_def)

text \<open>
  C8 as stated fails: with the backend \<open>bytecode\<close>, \<open>jit\<close> handed a class builds
  the extension class (lines 306 to 310 come before the table lookup), and \<open>autojit\<close>
  handed the function itself wraps it with the \<open>ast\<close> wrapper (line 230 passes
  \<open>backend='ast'\<close>). Neither raises.
\<close>

theorem bytecode_backend_counterexample:
  "jit (\<lambda>n. PyObject 0) (\<lambda>env cls kws. Inr cls) (\<lambda>s n. Inl (External ''syntax''))
       (PyClass ''Foo'') PyNone ''bytecode'' ''cpu'' (PyBool False) []
     = Inr (ExtensionClass ''Foo'')
   \<and> autojit (\<lambda>n. PyObject 0) (PyFunction ''f'') ''bytecode'' ''cpu'' (PyBool False) PyNone []
     = Inr (NumbaFunction (PyFunction ''f'')
              \<lparr> ac_template_signature = PyNone, ac_target = ''cpu'',
                ac_nopython = PyBool False, ac_env = PyObject 0,
                ac_translator_kwargs = [(''locals'', PyNone)] \<rparr>)"
  by (simp add: jit_def jit_extension_class_def autojit_def autojit_decorator_def
        autojit_wrappers_def autojit_inner_def get_or_none_def dict_get_def py_or_def
        dict_pop_def Let_def)


subsection \<open>Base class compatibility\<close>







subsection \<open>Inherited methods\<close>

lemma dict_set_new: "k \<notin> fst ` set d \<Longrightarrow> dict_set d k v = d @ [(k, v)]"
  by (induction d) auto

lemma inherit_methods_appends:
  assumes "\<forall>f \<in> set fs. \<exists>r args ic is. snd f = Pointer (FunctionType (Some r) args ic is)
                                   \<and> (\<not> (ic \<or> is) \<longrightarrow> args \<noteq> [])"
    and "distinct (map fst fs)"
    and "fst ` set fs \<inter> fst ` set (methods et) = {}"
  shows "inherit_methods et fs
         = Inr (et \<lparr> methods := methods et
                    @ map (\<lambda>f. (fst f, inherited_signature (cls_name (py_class et)) (snd f)))
                        fs \<rparr>)"
  using assms
proof (induction fs arbitrary: et)
  case Nil
  then show ?case by simp
next
  case (Cons f fs)
  obtain n r args ic "is" where f: "f = (n, Pointer (FunctionType (Some r) args ic is))"
    and a: "\<not> (ic \<or> is) \<longrightarrow> args \<noteq> []"
    using Cons.prems(1) by (cases f) auto
  let ?sig = "FunctionType (Some r) (if ic \<or> is then args else Extension (cls_name (py_class et)) # tl args) False False"
  let ?et = "add_method et n ?sig"
  have new: "n \<notin> fst ` set (methods et)"
    using Cons.prems(3) f by auto
  have m: "methods ?et = methods et @ [(n, ?sig)]"
    using new by (simp add: add_method_def dict_set_new)
  have step: "inherit_methods et (f # fs) = inherit_methods ?et fs"
    using a by (cases args) (auto simp: f)
  have ih: "inherit_methods ?et fs
        = Inr (?et \<lparr> methods := methods ?et
                    @ map (\<lambda>f. (fst f, inherited_signature (cls_name (py_class ?et)) (snd f)))
                        fs \<rparr>)"
  proof (rule Cons.IH)
    show "\<forall>f \<in> set fs. \<exists>r args ic is. snd f = Pointer (FunctionType (Some r) args ic is)
                                   \<and> (\<not> (ic \<or> is) \<longrightarrow> args \<noteq> [])"
      using Cons.prems(1) by simp
    show "distinct (map fst fs)" using Cons.prems(2) by simp
    show "fst ` set fs \<inter> fst ` set (methods ?et) = {}"
      using Cons.prems(2,3) f by (auto simp: m)
  qed
  then show ?case
    unfolding step using new by (simp add: add_method_def dict_set_new f)
qed


lemma fold_symtab_keeps:
  "methods (fold (\<lambda>f e. e \<lparr> symtab := g f e \<rparr>) fs e0) = methods e0
   \<and> py_class (fold (\<lambda>f e. e \<lparr> symtab := g f e \<rparr>) fs e0) = py_class e0
   \<and> attribute_struct (fold (\<lambda>f e. e \<lparr> symtab := g f e \<rparr>) fs e0) = attribute_struct e0"
  by (induction fs arbitrary: e0) auto

text \<open>
  C9. For a class with a native parent whose vtable fields are pointers to function
  types with a return type (the instance methods with at least one argument), and
  distinct names, \<open>inherit_attributes\<close> on the fresh extension type succeeds and
  enters the parent's methods into the method list in the vtable's order: each under
  its name and with its return type, an instance method with its first argument type
  replaced by the derived extension type, a class method or static method with its
  argument types unchanged.
\<close>

theorem inherit_attributes_methods:
  assumes "numba_struct_type (py_class et) = Some st"
    and "numba_vtab_type (py_class et) = Some vt"
    and "verify_base_class_compatibility (py_class et) st vt = Inr ()"
    and "methods et = []"
    and "distinct (map fst (struct_fields vt))"
    and "\<forall>f \<in> set (struct_fields vt).
           \<exists>r args ic is. snd f = Pointer (FunctionType (Some r) args ic is)
                         \<and> (\<not> (ic \<or> is) \<longrightarrow> args \<noteq> [])"
  shows "\<exists>et'. inherit_attributes et = Inr et'
           \<and> length (methods et') = length (struct_fields vt)
           \<and> (\<forall>i < length (struct_fields vt). \<forall>n ret args ic is.
                 struct_fields vt ! i = (n, Pointer (FunctionType ret args ic is)) \<longrightarrow>
                 fst (methods et' ! i) = n
                 \<and> signature_return_type (snd (methods et' ! i)) = ret
                 \<and> signature_args (snd (methods et' ! i))
                     = (if ic \<or> is then args
                        else Extension (cls_name (py_class et)) # tl args))"
proof -
  let ?s = "struct_of (struct_fields st)"
  let ?et2 = "fold (\<lambda>f e. e \<lparr> symtab := dict_set (symtab e) (fst f)
                                \<lparr> var_type = snd f, promotable_type = False \<rparr> \<rparr>)
                (struct_fields ?s) (et \<lparr> attribute_struct := Some ?s \<rparr>)"
  have k: "methods ?et2 = [] \<and> py_class ?et2 = py_class et"
    using fold_symtab_keeps
      [of "\<lambda>f e. dict_set (symtab e) (fst f) \<lparr> var_type = snd f, promotable_type = False \<rparr>"
          "struct_fields ?s" "et \<lparr> attribute_struct := Some ?s \<rparr>"] assms(4)
    by simp
  let ?ms = "map (\<lambda>f. (fst f, inherited_signature (cls_name (py_class et)) (snd f)))
               (struct_fields vt)"
  have im: "inherit_methods ?et2 (struct_fields vt) = Inr (?et2 \<lparr> methods := ?ms \<rparr>)"
    using inherit_methods_appends [of "struct_fields vt" ?et2] assms(5,6) k by simp
  let ?et' = "?et2 \<lparr> methods := ?ms, parent_attr_struct := Some st,
                     parent_vtab_type := Some vt \<rparr>"
  have r: "inherit_attributes et = Inr ?et'"
    using assms(1-3) im by (simp add: inherit_attributes_def Let_def)
  have m: "methods ?et' = ?ms" by simp
  have "\<forall>i < length (struct_fields vt). \<forall>n ret args ic is.
          struct_fields vt ! i = (n, Pointer (FunctionType ret args ic is)) \<longrightarrow>
          fst (?ms ! i) = n
          \<and> signature_return_type (snd (?ms ! i)) = ret
          \<and> signature_args (snd (?ms ! i))
              = (if ic \<or> is then args else Extension (cls_name (py_class et)) # tl args)"
    by simp
  then show ?thesis
    using r m by (intro exI [of _ ?et']) simp
qed


theorem inherit_attributes_methods_witness:
  "numba_struct_type (py_class (new_extension_type class_Child))
     = Some (struct_of [(''x'', f8)])
   \<and> numba_vtab_type (py_class (new_extension_type class_Child)) = Some base_vtab
   \<and> verify_base_class_compatibility (py_class (new_extension_type class_Child))
       (struct_of [(''x'', f8)]) base_vtab = Inr ()
   \<and> methods (new_extension_type class_Child) = []
   \<and> distinct (map fst (struct_fields base_vtab))
   \<and> (case inherit_attributes (new_extension_type class_Child) of
         Inl e \<Rightarrow> []
       | Inr et' \<Rightarrow> methods et')
     = [(''area'', FunctionType (Some f8) [Extension ''Child''] False False),
        (''make'', FunctionType (Some i4) [i4] False False)]"
  using inherit_attributes_methods
    [where et = "new_extension_type class_Child" and st = "struct_of [(''x'', f8)]"
       and vt = base_vtab]
  by (simp add: new_extension_type_def struct_of_def dict_of_def
        verify_base_class_compatibility_def is_prefix_def inherit_attributes_def
        add_method_def Let_def)

subsection \<open>The attribute struct\<close>

lemma dict_get_fold_dict_set:
  "(dict_get (fold (\<lambda>kv d. dict_set d (fst kv) (snd kv)) kvs d0) n = None)
   = (dict_get d0 n = None \<and> n \<notin> fst ` set kvs)"
  by (induction kvs arbitrary: d0) (auto simp: dict_get_dict_set)

lemma dict_get_dict_of: "(dict_get (dict_of kvs) n = None) = (n \<notin> fst ` set kvs)"
  using dict_get_fold_dict_set [of kvs "[]" n] by (simp add: dict_of_def dict_get_def)

lemma fold_new_fields:
  "distinct (map fst xs) \<Longrightarrow>
   fst (fold (\<lambda>nv (fs, fd).
               if dict_get fd (fst nv) = None
               then (fs @ [(fst nv, var_type (snd nv))],
                     dict_set fd (fst nv) (var_type (snd nv)))
               else (fs, fd)) xs (fs0, fd0))
   = fs0 @ map (\<lambda>nv. (fst nv, var_type (snd nv)))
            (filter (\<lambda>nv. dict_get fd0 (fst nv) = None) xs)"
proof (induction xs arbitrary: fs0 fd0)
  case Nil
  then show ?case by simp
next
  case (Cons x xs)
  have d: "distinct (map fst xs)" and nx: "fst x \<notin> fst ` set xs"
    using Cons.prems by auto
  show ?case
  proof (cases "dict_get fd0 (fst x) = None")
    case True
    have "filter (\<lambda>nv. dict_get (dict_set fd0 (fst x) (var_type (snd x))) (fst nv) = None) xs
          = filter (\<lambda>nv. dict_get fd0 (fst nv) = None) xs"
    proof (intro filter_cong refl)
      fix y assume "y \<in> set xs"
      then have "fst y \<noteq> fst x" using nx by (metis image_eqI)
      then show "(dict_get (dict_set fd0 (fst x) (var_type (snd x))) (fst y) = None)
                 = (dict_get fd0 (fst y) = None)"
        by (simp add: dict_get_dict_set)
    qed
    then show ?thesis
      using True Cons.IH [OF d, of "fs0 @ [(fst x, var_type (snd x))]"
                             "dict_set fd0 (fst x) (var_type (snd x))"]
      by simp
  next
    case False
    then obtain t where "dict_get fd0 (fst x) = Some t" by auto
    then show ?thesis using Cons.IH [OF d, of fs0 fd0] by simp
  qed
qed

lemma inherit_methods_keeps_struct:
  "inherit_methods et fs = Inr et' \<Longrightarrow> attribute_struct et' = attribute_struct et"
  by (induction et fs rule: inherit_methods.induct)
     (auto simp: add_method_def split: if_splits list.splits option.splits)

text \<open>
  C3 (as amended). After \<open>inherit_attributes\<close> has succeeded for a class with a
  native parent, and whatever the later stages added to the symbol table,
  \<open>_construct_native_attribute_struct\<close> gives the struct these fields: all fields
  of the parent, in the parent's order, followed by the fields of the struct that
  line 155 builds from the list of the symbol-table entries whose names the parent
  lacks, each once, collected in the order the dictionary enumerates them. For
  \<open>Base\<close> with \<open>x: f8\<close> and \<open>Child(Base)\<close> adding \<open>y: i4\<close> the fields are
  \<open>[x: f8, y: i4]\<close>.
\<close>

theorem inherited_fields_first:
  assumes "inherit_attributes et0 = Inr et1"
    and "numba_struct_type (py_class et0) = Some parent"
    and "attribute_struct et2 = attribute_struct et1"
    and "distinct (map fst (iteritems (symtab et2)))"
  shows "\<exists>s. attribute_struct
                (construct_native_attribute_struct struct_kw struct_list iteritems et2) = Some s
           \<and> struct_fields s
               = struct_fields parent
                 @ struct_list
                     (map (\<lambda>nv. (fst nv, var_type (snd nv)))
                        (filter (\<lambda>nv. fst nv \<notin> fst ` set (struct_fields parent))
                           (iteritems (symtab et2))))"
proof -
  let ?s = "struct_of (struct_fields parent)"
  have k: "attribute_struct
             (fold (\<lambda>f e. e \<lparr> symtab := dict_set (symtab e) (fst f)
                                \<lparr> var_type = snd f, promotable_type = False \<rparr> \<rparr>)
                (struct_fields ?s) (et0 \<lparr> attribute_struct := Some ?s \<rparr>))
           = Some ?s"
    using fold_symtab_keeps
      [of "\<lambda>f e. dict_set (symtab e) (fst f) \<lparr> var_type = snd f, promotable_type = False \<rparr>"
          "struct_fields ?s" "et0 \<lparr> attribute_struct := Some ?s \<rparr>"]
    by simp
  have "attribute_struct et1 = Some (struct_of (struct_fields parent))"
    using assms(1,2) k
    by (auto simp: inherit_attributes_def Let_def
          split: option.splits sum.splits dest!: inherit_methods_keeps_struct)
  then have a: "attribute_struct et2 = Some (struct_of (struct_fields parent))"
    using assms(3) by simp
  have f: "filter (\<lambda>nv. dict_get (dict_of (struct_fields parent)) (fst nv) = None)
             (iteritems (symtab et2))
           = filter (\<lambda>nv. fst nv \<notin> fst ` set (struct_fields parent))
               (iteritems (symtab et2))"
    by (simp add: dict_get_dict_of)
  show ?thesis
    using a fold_new_fields [OF assms(4), of "[]" "dict_of (struct_fields parent)"] f
    by (simp add: construct_native_attribute_struct_def Let_def split_beta struct_of_def)
qed

theorem inherited_fields_first_witness:
  "inherit_attributes (new_extension_type class_Child) = Inr child_inherited
   \<and> numba_struct_type (py_class (new_extension_type class_Child))
     = Some (struct_of [(''x'', f8)])
   \<and> attribute_struct
       (process_class_attribute_types slot_order child_inherited [(''y'', AttributeType i4)])
     = attribute_struct child_inherited
   \<and> slot_order (symtab
       (process_class_attribute_types slot_order child_inherited
          [(''y'', AttributeType i4)]))
     = [(''y'', \<lparr> var_type = i4, promotable_type = False \<rparr>),
        (''x'', \<lparr> var_type = f8, promotable_type = False \<rparr>)]
   \<and> map_option struct_fields
       (attribute_struct
          (construct_native_attribute_struct struct_of (\<lambda>fs. struct_fields (struct_of fs))
             slot_order
             (process_class_attribute_types slot_order child_inherited
                [(''y'', AttributeType i4)])))
     = Some [(''x'', f8), (''y'', i4)]"
  using inherited_fields_first
    [where ?et0.0 = "new_extension_type class_Child" and ?et1.0 = child_inherited
       and parent = "struct_of [(''x'', f8)]"
       and ?et2.0 = "process_class_attribute_types slot_order child_inherited
                       [(''y'', AttributeType i4)]"
       and struct_kw = struct_of and struct_list = "\<lambda>fs. struct_fields (struct_of fs)"
       and iteritems = slot_order]
  by (simp add: new_extension_type_def struct_of_def dict_of_def
        verify_base_class_compatibility_def is_prefix_def inherit_attributes_def
        add_method_def process_class_attribute_types_def slot_order_def hash_slot_def
        construct_native_attribute_struct_def dict_get_def Let_def)

text \<open>
  C3 as stated fails on the order of the new fields: the code keeps no record of the
  order in which attributes were first seen, and collects the new fields in the order
  the symbol table enumerates them. Let \<open>Base\<close> declare \<open>x: f8\<close> and
  \<open>Child(Base)\<close> declare \<open>z: f8\<close> and then \<open>y: f8\<close>. Whether the class dictionary
  hands the two over as declared or in its own order, the symbol table, a dictionary
  with the keys \<open>x\<close>, \<open>y\<close>, \<open>z\<close>, enumerates \<open>y\<close>, \<open>x\<close>, \<open>z\<close>, and the struct
  is \<open>[x: f8, y: f8, z: f8]\<close>, not \<open>[x: f8, z: f8, y: f8]\<close>.
\<close>

theorem inherited_fields_first_counterexample:
  "hash_slot ''y'' = 0 \<and> hash_slot ''x'' = 1 \<and> hash_slot ''z'' = 3
   \<and> map fst (slot_order (symtab (process_class_attribute_types (\<lambda>d. d) child_inherited
             [(''z'', AttributeType f8), (''y'', AttributeType f8)])))
     = [''y'', ''x'', ''z'']
   \<and> map_option struct_fields
       (attribute_struct
          (construct_native_attribute_struct struct_of (\<lambda>fs. struct_fields (struct_of fs))
             slot_order
             (process_class_attribute_types (\<lambda>d. d) child_inherited
                [(''z'', AttributeType f8), (''y'', AttributeType f8)])))
     = Some [(''x'', f8), (''y'', f8), (''z'', f8)]
   \<and> map_option struct_fields
       (attribute_struct
          (construct_native_attribute_struct struct_of (\<lambda>fs. struct_fields (struct_of fs))
             slot_order
             (process_class_attribute_types slot_order child_inherited
                [(''z'', AttributeType f8), (''y'', AttributeType f8)])))
     = Some [(''x'', f8), (''y'', f8), (''z'', f8)]"
  by (simp add: struct_of_def dict_of_def process_class_attribute_types_def
        slot_order_def hash_slot_def construct_native_attribute_struct_def dict_get_def
        Let_def)

text \<open>
  The two new fields of that class have one type, hence one rank: a struct
  constructor that sorts the list it is given by rank, as the comment on line 154
  has it, and keeps fields of equal rank in the order given, builds the same struct
  \<open>[x: f8, y: f8, z: f8]\<close> whatever the ranks are.
\<close>

lemma fields_of_one_rank:
  "map_option struct_fields
     (attribute_struct
        (construct_native_attribute_struct struct_of
           (sort_key (\<lambda>f. (rank :: ty \<Rightarrow> nat) (snd f))) slot_order
           (process_class_attribute_types (\<lambda>d. d) child_inherited
              [(''z'', AttributeType f8), (''y'', AttributeType f8)])))
   = Some [(''x'', f8), (''y'', f8), (''z'', f8)]"
  by (simp add: struct_of_def dict_of_def process_class_attribute_types_def
        slot_order_def hash_slot_def construct_native_attribute_struct_def dict_get_def
        Let_def)

subsection \<open>Compiling the methods\<close>

lemma compile_methods_loop_result:
  assumes "compile_methods_loop compile2 parent flags ms st = Inr st'"
  shows "(\<forall>n. (dict_get (class_dict st') n = None) = (dict_get (class_dict st) n = None))
     \<and> compiled_names st'
         = compiled_names st
           @ filter (\<lambda>n. dict_get (class_dict st) n \<noteq> None) (map (\<lambda>m. fst (snd m)) ms)
     \<and> (\<exists>ptrs. method_pointers st' = method_pointers st @ ptrs \<and> length ptrs = length ms
          \<and> (\<forall>j < length ms. dict_get (class_dict st) (fst (snd (ms ! j))) = None \<longrightarrow>
                (\<exists>pp. parent = Some pp \<and> fst (ms ! j) < length pp
                      \<and> ptrs ! j = pp ! fst (ms ! j)
                      \<and> fst (pp ! fst (ms ! j)) = fst (snd (ms ! j)))))"
  using assms
proof (induction ms arbitrary: st)
  case Nil
  then show ?case by simp
next
  case (Cons m ms)
  obtain i name sig where m: "m = (i, name, sig)" by (cases m) auto
  show ?case
  proof (cases "dict_get (class_dict st) name")
    case None
    from Cons.prems None m obtain pp p where pp: "parent = Some pp" "i < length pp"
      "pp ! i = (name, p)"
      and run: "compile_methods_loop compile2 parent flags ms
                  (st \<lparr> method_pointers := method_pointers st @ [(name, p)] \<rparr>) = Inr st'"
      by (auto simp: compile_method_def Let_def split: option.splits if_splits prod.splits)
    let ?st1 = "st \<lparr> method_pointers := method_pointers st @ [(name, p)] \<rparr>"
    from Cons.IH [OF run] obtain ptrs where
      a: "\<forall>n. (dict_get (class_dict st') n = None) = (dict_get (class_dict ?st1) n = None)"
      and b: "compiled_names st' = compiled_names ?st1
           @ filter (\<lambda>n. dict_get (class_dict ?st1) n \<noteq> None) (map (\<lambda>m. fst (snd m)) ms)"
      and c: "method_pointers st' = method_pointers ?st1 @ ptrs" "length ptrs = length ms"
      and d: "\<forall>j < length ms. dict_get (class_dict ?st1) (fst (snd (ms ! j))) = None \<longrightarrow>
                (\<exists>pp. parent = Some pp \<and> fst (ms ! j) < length pp
                      \<and> ptrs ! j = pp ! fst (ms ! j)
                      \<and> fst (pp ! fst (ms ! j)) = fst (snd (ms ! j)))"
      by blast
    have e: "\<forall>j < length (m # ms). dict_get (class_dict st) (fst (snd ((m # ms) ! j))) = None \<longrightarrow>
                (\<exists>pp. parent = Some pp \<and> fst ((m # ms) ! j) < length pp
                      \<and> ((name, p) # ptrs) ! j = pp ! fst ((m # ms) ! j)
                      \<and> fst (pp ! fst ((m # ms) ! j)) = fst (snd ((m # ms) ! j)))"
    proof (intro allI impI)
      fix j assume "j < length (m # ms)"
        and "dict_get (class_dict st) (fst (snd ((m # ms) ! j))) = None"
      then show "\<exists>pp. parent = Some pp \<and> fst ((m # ms) ! j) < length pp
                      \<and> ((name, p) # ptrs) ! j = pp ! fst ((m # ms) ! j)
                      \<and> fst (pp ! fst ((m # ms) ! j)) = fst (snd ((m # ms) ! j))"
        using d pp m by (cases j) auto
    qed
    have "method_pointers st' = method_pointers st @ ((name, p) # ptrs)"
      using c by simp
    moreover have "length ((name, p) # ptrs) = length (m # ms)" using c by simp
    ultimately have f: "\<exists>ptrs. method_pointers st' = method_pointers st @ ptrs
          \<and> length ptrs = length (m # ms)
          \<and> (\<forall>j < length (m # ms).
                dict_get (class_dict st) (fst (snd ((m # ms) ! j))) = None \<longrightarrow>
                (\<exists>pp. parent = Some pp \<and> fst ((m # ms) ! j) < length pp
                      \<and> ptrs ! j = pp ! fst ((m # ms) ! j)
                      \<and> fst (pp ! fst ((m # ms) ! j)) = fst (snd ((m # ms) ! j))))"
      using e by blast
    show ?thesis using a b f None m by simp
  next
    case (Some entry)
    from Cons.prems Some m obtain py_func ret args c s and fe :: func_env where
      own: "entry = Method py_func" "sig = FunctionType ret args c s"
      and run: "compile_methods_loop compile2 parent flags ms
                  (st \<lparr> lmethods := lmethods st @ [lfunc fe],
                        method_pointers := method_pointers st @ [(name, lfunc_pointer fe)],
                        class_dict := dict_set (class_dict st) name
                                        (CompiledMethod (numba_wrapper_func fe)),
                        compiled_names := compiled_names st @ [name] \<rparr>) = Inr st'"
      by (auto simp: compile_method_def Let_def
            split: class_entry.splits ty.splits sum.splits if_splits)
    let ?st1 = "st \<lparr> lmethods := lmethods st @ [lfunc fe],
                        method_pointers := method_pointers st @ [(name, lfunc_pointer fe)],
                        class_dict := dict_set (class_dict st) name
                                        (CompiledMethod (numba_wrapper_func fe)),
                        compiled_names := compiled_names st @ [name] \<rparr>"
    have same: "\<And>n. (dict_get (class_dict ?st1) n = None) = (dict_get (class_dict st) n = None)"
      using Some by (simp add: dict_get_dict_set)
    from Cons.IH [OF run] obtain ptrs where
      a: "\<forall>n. (dict_get (class_dict st') n = None) = (dict_get (class_dict ?st1) n = None)"
      and b: "compiled_names st' = compiled_names ?st1
           @ filter (\<lambda>n. dict_get (class_dict ?st1) n \<noteq> None) (map (\<lambda>m. fst (snd m)) ms)"
      and c: "method_pointers st' = method_pointers ?st1 @ ptrs" "length ptrs = length ms"
      and d: "\<forall>j < length ms. dict_get (class_dict ?st1) (fst (snd (ms ! j))) = None \<longrightarrow>
                (\<exists>pp. parent = Some pp \<and> fst (ms ! j) < length pp
                      \<and> ptrs ! j = pp ! fst (ms ! j)
                      \<and> fst (pp ! fst (ms ! j)) = fst (snd (ms ! j)))"
      by blast
    have e: "\<forall>j < length (m # ms). dict_get (class_dict st) (fst (snd ((m # ms) ! j))) = None \<longrightarrow>
                (\<exists>pp. parent = Some pp \<and> fst ((m # ms) ! j) < length pp
                      \<and> ((name, lfunc_pointer fe) # ptrs) ! j = pp ! fst ((m # ms) ! j)
                      \<and> fst (pp ! fst ((m # ms) ! j)) = fst (snd ((m # ms) ! j)))"
    proof (intro allI impI)
      fix j assume "j < length (m # ms)"
        and "dict_get (class_dict st) (fst (snd ((m # ms) ! j))) = None"
      then show "\<exists>pp. parent = Some pp \<and> fst ((m # ms) ! j) < length pp
                      \<and> ((name, lfunc_pointer fe) # ptrs) ! j = pp ! fst ((m # ms) ! j)
                      \<and> fst (pp ! fst ((m # ms) ! j)) = fst (snd ((m # ms) ! j))"
        using d Some m same by (cases j) auto
    qed
    have "method_pointers st' = method_pointers st @ ((name, lfunc_pointer fe) # ptrs)"
      using c by simp
    moreover have "length ((name, lfunc_pointer fe) # ptrs) = length (m # ms)" using c by simp
    ultimately have f: "\<exists>ptrs. method_pointers st' = method_pointers st @ ptrs
          \<and> length ptrs = length (m # ms)
          \<and> (\<forall>j < length (m # ms).
                dict_get (class_dict st) (fst (snd ((m # ms) ! j))) = None \<longrightarrow>
                (\<exists>pp. parent = Some pp \<and> fst ((m # ms) ! j) < length pp
                      \<and> ptrs ! j = pp ! fst ((m # ms) ! j)
                      \<and> fst (pp ! fst ((m # ms) ! j)) = fst (snd ((m # ms) ! j))))"
      using e by blast
    have b': "compiled_names st' = compiled_names st
           @ filter (\<lambda>n. dict_get (class_dict st) n \<noteq> None) (map (\<lambda>m. fst (snd m)) (m # ms))"
      using b Some m same by (simp del: not_None_eq)
    show ?thesis using a same b' f by (simp del: not_None_eq)
  qed
qed


lemma compile_methods_loop_append:
  "compile_methods_loop compile2 parent flags (pre @ post) st
   = (case compile_methods_loop compile2 parent flags pre st of
        Inl e \<Rightarrow> Inl e
      | Inr st1 \<Rightarrow> compile_methods_loop compile2 parent flags post st1)"
  by (induction pre arbitrary: st) (auto split: sum.splits)

lemma enumerate_append:
  "enumerate (pre @ x # post)
   = enumerate pre @ (length pre, x) # zip [Suc (length pre)..<Suc (length pre + length post)] post"
proof -
  have "[0..<length pre + Suc (length post)]
        = [0..<length pre] @ [length pre..<length pre + Suc (length post)]"
    by (rule upt_add_eq_append) simp
  also have "[length pre..<length pre + Suc (length post)]
        = length pre # [Suc (length pre)..<Suc (length pre + length post)]"
    by (simp add: upt_conv_Cons del: upt_Suc)
  finally show ?thesis by (simp add: enumerate_def del: upt_Suc)
qed

lemma enumerate_nth:
  "i < length xs \<Longrightarrow> enumerate xs ! i = (i, xs ! i)"
  by (simp add: enumerate_def)

lemma enumerate_names: "map (\<lambda>m. fst (snd m)) (enumerate xs) = map fst xs"
  by (auto simp: enumerate_def intro!: nth_equalityI)

lemma compile_methods_loop_total:
  assumes "distinct (map (\<lambda>m. fst (snd m)) ms)"
    and "dict_get flags ''name'' = None"
    and "\<forall>m \<in> set ms.
           (dict_get (class_dict st) (fst (snd m)) = None \<longrightarrow>
              (\<exists>pp. parent = Some pp \<and> fst m < length pp
                    \<and> fst (pp ! fst m) = fst (snd m)))
           \<and> (\<forall>e. dict_get (class_dict st) (fst (snd m)) = Some e \<longrightarrow>
                (\<exists>f ret args c s. \<exists>fe :: func_env.
                   e = Method f \<and> snd (snd m) = FunctionType ret args c s
                   \<and> compile2 f (case ret of None \<Rightarrow> PyNone | Some t \<Rightarrow> PyType t) args
                        (dict_set flags ''name'' (PyStr (fn_name f))) = Inr fe))"
  shows "\<exists>st'. compile_methods_loop compile2 parent flags ms st = Inr st'"
  using assms
proof (induction ms arbitrary: st)
  case Nil
  then show ?case by simp
next
  case (Cons m ms)
  obtain i name sig where m: "m = (i, name, sig)" by (cases m) auto
  have d: "distinct (map (\<lambda>m. fst (snd m)) ms)"
    and nm: "\<forall>m' \<in> set ms. fst (snd m') \<noteq> name"
    using Cons.prems(1) m by auto
  show ?case
  proof (cases "dict_get (class_dict st) name")
    case None
    with Cons.prems(3) m obtain pp where pp: "parent = Some pp" "i < length pp"
      "fst (pp ! i) = name"
      by auto
    let ?st1 = "st \<lparr> method_pointers := method_pointers st @ [(name, snd (pp ! i))] \<rparr>"
    have step: "compile_method compile2 parent flags m st = Inr ?st1"
      using None pp m by (simp add: compile_method_def Let_def split_beta)
    have "\<exists>st'. compile_methods_loop compile2 parent flags ms ?st1 = Inr st'"
      using d Cons.prems(2,3) by (intro Cons.IH) auto
    then show ?thesis by (simp add: step)
  next
    case (Some e)
    with Cons.prems(3) m obtain f ret args c s and fe :: func_env where
      own: "e = Method f" "sig = FunctionType ret args c s"
        "compile2 f (case ret of None \<Rightarrow> PyNone | Some t \<Rightarrow> PyType t) args
           (dict_set flags ''name'' (PyStr (fn_name f))) = Inr fe"
      by fastforce
    let ?st1 = "st \<lparr> lmethods := lmethods st @ [lfunc fe],
                      method_pointers := method_pointers st @ [(name, lfunc_pointer fe)],
                      class_dict := dict_set (class_dict st) name
                                      (CompiledMethod (numba_wrapper_func fe)),
                      compiled_names := compiled_names st @ [name] \<rparr>"
    have step: "compile_method compile2 parent flags m st = Inr ?st1"
      using Some own m Cons.prems(2) by (simp add: compile_method_def Let_def)
    have same: "\<And>m'. m' \<in> set ms \<Longrightarrow>
        dict_get (class_dict ?st1) (fst (snd m')) = dict_get (class_dict st) (fst (snd m'))"
      using nm by (simp add: dict_get_dict_set)
    have "\<exists>st'. compile_methods_loop compile2 parent flags ms ?st1 = Inr st'"
    proof (rule Cons.IH [OF d Cons.prems(2)], intro ballI)
      fix m' assume in_ms: "m' \<in> set ms"
      have "(dict_get (class_dict st) (fst (snd m')) = None \<longrightarrow>
              (\<exists>pp. parent = Some pp \<and> fst m' < length pp
                    \<and> fst (pp ! fst m') = fst (snd m')))
           \<and> (\<forall>e. dict_get (class_dict st) (fst (snd m')) = Some e \<longrightarrow>
                (\<exists>f ret args c s. \<exists>fe :: func_env.
                   e = Method f \<and> snd (snd m') = FunctionType ret args c s
                   \<and> compile2 f (case ret of None \<Rightarrow> PyNone | Some t \<Rightarrow> PyType t) args
                        (dict_set flags ''name'' (PyStr (fn_name f))) = Inr fe))"
        using Cons.prems(3) in_ms by simp
      then show "(dict_get (class_dict ?st1) (fst (snd m')) = None \<longrightarrow>
              (\<exists>pp. parent = Some pp \<and> fst m' < length pp
                    \<and> fst (pp ! fst m') = fst (snd m')))
           \<and> (\<forall>e. dict_get (class_dict ?st1) (fst (snd m')) = Some e \<longrightarrow>
                (\<exists>f ret args c s. \<exists>fe :: func_env.
                   e = Method f \<and> snd (snd m') = FunctionType ret args c s
                   \<and> compile2 f (case ret of None \<Rightarrow> PyNone | Some t \<Rightarrow> PyType t) args
                        (dict_set flags ''name'' (PyStr (fn_name f))) = Inr fe))"
        by (simp only: same [OF in_ms])
    qed
    then show ?thesis by (simp add: step)
  qed
qed

text \<open>
  C6. Let the method names be distinct and the flags hold no \<open>name\<close>; let every
  method found in the class dictionary be a function that the pipeline compiles at
  its signature; and for every other method, an inherited one, let the parent's
  pointer table be there and hold that method's name at that method's index. Then
  \<open>_compile_methods\<close> returns: the pipeline was called for exactly the methods of
  the class dictionary, in order, and for no inherited method; every method is given
  one entry of the pointer table, at its index; and for every inherited method the
  entry at its index is the parent's entry at that index, pointer included. When the
  class has no parent table and the method list holds an inherited method,
  \<open>_compile_methods\<close> raises: the assertion of line 115 fails at the first
  inherited method, unless the compilation of one of the class's own methods before
  it has raised already.
\<close>

theorem compile_methods_inherited:
  "(distinct (map fst (methods et)) \<longrightarrow>
    dict_get flags ''name'' = None \<longrightarrow>
    (\<forall>i < length (methods et).
        (dict_get (class_dict st) (fst (methods et ! i)) = None \<longrightarrow>
           (\<exists>pp. numba_method_pointers (py_class et) = Some pp \<and> i < length pp
                 \<and> fst (pp ! i) = fst (methods et ! i)))
        \<and> (\<forall>e. dict_get (class_dict st) (fst (methods et ! i)) = Some e \<longrightarrow>
             (\<exists>f ret args c s. \<exists>fe :: func_env.
                e = Method f \<and> snd (methods et ! i) = FunctionType ret args c s
                \<and> compile2 f (case ret of None \<Rightarrow> PyNone | Some t \<Rightarrow> PyType t) args
                     (dict_set flags ''name'' (PyStr (fn_name f))) = Inr fe))) \<longrightarrow>
    (\<exists>st'. compile_methods compile2 et flags st = Inr st'
       \<and> compiled_names st'
           = compiled_names st
             @ filter (\<lambda>n. dict_get (class_dict st) n \<noteq> None) (map fst (methods et))
       \<and> length (method_pointers st') = length (method_pointers st) + length (methods et)
       \<and> (\<forall>i < length (methods et).
             dict_get (class_dict st) (fst (methods et ! i)) = None \<longrightarrow>
             (\<exists>pp. numba_method_pointers (py_class et) = Some pp \<and> i < length pp
                  \<and> fst (pp ! i) = fst (methods et ! i)
                  \<and> method_pointers st' ! (length (method_pointers st) + i) = pp ! i))))
   \<and> (numba_method_pointers (py_class et) = None \<longrightarrow>
      methods et = pre @ (name, sig) # post \<longrightarrow>
      dict_get (class_dict st) name = None \<longrightarrow>
      compile_methods compile2 et flags st
        = (case compile_methods_loop compile2 None flags (enumerate pre) st of
             Inl e \<Rightarrow> Inl e
           | Inr st1 \<Rightarrow> Inl (AssertionError ''parent_method_pointers is not None'')))"
proof (intro conjI impI)
  assume dist: "distinct (map fst (methods et))"
    and noname: "dict_get flags ''name'' = None"
    and ok: "\<forall>i < length (methods et).
        (dict_get (class_dict st) (fst (methods et ! i)) = None \<longrightarrow>
           (\<exists>pp. numba_method_pointers (py_class et) = Some pp \<and> i < length pp
                 \<and> fst (pp ! i) = fst (methods et ! i)))
        \<and> (\<forall>e. dict_get (class_dict st) (fst (methods et ! i)) = Some e \<longrightarrow>
             (\<exists>f ret args c s. \<exists>fe :: func_env.
                e = Method f \<and> snd (methods et ! i) = FunctionType ret args c s
                \<and> compile2 f (case ret of None \<Rightarrow> PyNone | Some t \<Rightarrow> PyType t) args
                     (dict_set flags ''name'' (PyStr (fn_name f))) = Inr fe))"
  let ?ms = "enumerate (methods et)"
  let ?parent = "numba_method_pointers (py_class et)"
  have len: "length ?ms = length (methods et)" by (simp add: enumerate_def)
  have d: "distinct (map (\<lambda>m. fst (snd m)) ?ms)"
    using dist by (simp only: enumerate_names)
  have each: "\<forall>m \<in> set ?ms.
           (dict_get (class_dict st) (fst (snd m)) = None \<longrightarrow>
              (\<exists>pp. ?parent = Some pp \<and> fst m < length pp
                    \<and> fst (pp ! fst m) = fst (snd m)))
           \<and> (\<forall>e. dict_get (class_dict st) (fst (snd m)) = Some e \<longrightarrow>
                (\<exists>f ret args c s. \<exists>fe :: func_env.
                   e = Method f \<and> snd (snd m) = FunctionType ret args c s
                   \<and> compile2 f (case ret of None \<Rightarrow> PyNone | Some t \<Rightarrow> PyType t) args
                        (dict_set flags ''name'' (PyStr (fn_name f))) = Inr fe))"
  proof
    fix m assume "m \<in> set ?ms"
    then obtain i where i: "i < length (methods et)" and m: "m = (i, methods et ! i)"
      using len enumerate_nth [of _ "methods et"] by (metis in_set_conv_nth)
    show "(dict_get (class_dict st) (fst (snd m)) = None \<longrightarrow>
              (\<exists>pp. ?parent = Some pp \<and> fst m < length pp
                    \<and> fst (pp ! fst m) = fst (snd m)))
           \<and> (\<forall>e. dict_get (class_dict st) (fst (snd m)) = Some e \<longrightarrow>
                (\<exists>f ret args c s. \<exists>fe :: func_env.
                   e = Method f \<and> snd (snd m) = FunctionType ret args c s
                   \<and> compile2 f (case ret of None \<Rightarrow> PyNone | Some t \<Rightarrow> PyType t) args
                        (dict_set flags ''name'' (PyStr (fn_name f))) = Inr fe))"
      using ok i by (simp add: m)
  qed
  have "\<exists>st'. compile_methods_loop compile2 ?parent flags ?ms st = Inr st'"
    using d noname each by (rule compile_methods_loop_total)
  then obtain st' where
    loop: "compile_methods_loop compile2 ?parent flags ?ms st = Inr st'"
    by blast
  from compile_methods_loop_result [OF loop] obtain ptrs where
    b: "compiled_names st' = compiled_names st
           @ filter (\<lambda>n. dict_get (class_dict st) n \<noteq> None) (map (\<lambda>m. fst (snd m)) ?ms)"
    and c: "method_pointers st' = method_pointers st @ ptrs" "length ptrs = length ?ms"
    and e: "\<forall>j < length ?ms. dict_get (class_dict st) (fst (snd (?ms ! j))) = None \<longrightarrow>
              (\<exists>pp. ?parent = Some pp \<and> fst (?ms ! j) < length pp
                    \<and> ptrs ! j = pp ! fst (?ms ! j)
                    \<and> fst (pp ! fst (?ms ! j)) = fst (snd (?ms ! j)))"
    by blast
  have r1: "compile_methods compile2 et flags st = Inr st'"
    using loop by (simp add: compile_methods_def)
  have r2: "compiled_names st'
        = compiled_names st
          @ filter (\<lambda>n. dict_get (class_dict st) n \<noteq> None) (map fst (methods et))"
    using b by (simp only: enumerate_names)
  have r3: "length (method_pointers st') = length (method_pointers st) + length (methods et)"
    using c len by simp
  have r4: "\<forall>i < length (methods et).
            dict_get (class_dict st) (fst (methods et ! i)) = None \<longrightarrow>
            (\<exists>pp. ?parent = Some pp \<and> i < length pp
                 \<and> fst (pp ! i) = fst (methods et ! i)
                 \<and> method_pointers st' ! (length (method_pointers st) + i) = pp ! i)"
  proof (intro allI impI)
    fix i assume i: "i < length (methods et)"
      and inh: "dict_get (class_dict st) (fst (methods et ! i)) = None"
    have n: "?ms ! i = (i, methods et ! i)" using i by (rule enumerate_nth)
    from e i inh len n obtain pp where
      "?parent = Some pp" "i < length pp"
      "ptrs ! i = pp ! i" "fst (pp ! i) = fst (methods et ! i)"
      by auto
    then show "\<exists>pp. ?parent = Some pp \<and> i < length pp
                 \<and> fst (pp ! i) = fst (methods et ! i)
                 \<and> method_pointers st' ! (length (method_pointers st) + i) = pp ! i"
      using c by simp
  qed
  show "\<exists>st'. compile_methods compile2 et flags st = Inr st'
       \<and> compiled_names st'
           = compiled_names st
             @ filter (\<lambda>n. dict_get (class_dict st) n \<noteq> None) (map fst (methods et))
       \<and> length (method_pointers st') = length (method_pointers st) + length (methods et)
       \<and> (\<forall>i < length (methods et).
             dict_get (class_dict st) (fst (methods et ! i)) = None \<longrightarrow>
             (\<exists>pp. numba_method_pointers (py_class et) = Some pp \<and> i < length pp
                  \<and> fst (pp ! i) = fst (methods et ! i)
                  \<and> method_pointers st' ! (length (method_pointers st) + i) = pp ! i))"
    using r1 r2 r3 r4 by blast
next
  assume none: "numba_method_pointers (py_class et) = None"
    and ms: "methods et = pre @ (name, sig) # post"
    and inh: "dict_get (class_dict st) name = None"
  let ?rest = "zip [Suc (length pre)..<Suc (length pre + length post)] post"
  have split: "compile_methods compile2 et flags st
        = (case compile_methods_loop compile2 None flags (enumerate pre) st of
             Inl e \<Rightarrow> Inl e
           | Inr st1 \<Rightarrow>
               compile_methods_loop compile2 None flags ((length pre, name, sig) # ?rest) st1)"
    by (simp only: compile_methods_def none ms enumerate_append compile_methods_loop_append)
  show "compile_methods compile2 et flags st
        = (case compile_methods_loop compile2 None flags (enumerate pre) st of
             Inl e \<Rightarrow> Inl e
           | Inr st1 \<Rightarrow> Inl (AssertionError ''parent_method_pointers is not None''))"
  proof (cases "compile_methods_loop compile2 None flags (enumerate pre) st")
    case (Inl e)
    then show ?thesis by (simp add: split)
  next
    case (Inr st1)
    from compile_methods_loop_result [OF Inr] inh
    have "dict_get (class_dict st1) name = None" by simp
    then show ?thesis
      by (simp add: split Inr compile_method_def)
  qed
qed

theorem compile_methods_inherited_witness:
  "distinct (map fst (methods child_inherited))
   \<and> dict_get ([] :: kwdict) ''name'' = None
   \<and> dict_get (class_dict override_build_state) (fst (methods child_inherited ! 0)) = None
   \<and> numba_method_pointers (py_class child_inherited)
     = Some [(''area'', PyObject 10), (''make'', PyObject 11)]
   \<and> dict_get (class_dict override_build_state) (fst (methods child_inherited ! 1))
     = Some (Method make_fn)
   \<and> compile_methods method_pipeline child_inherited [] override_build_state
     = Inr \<lparr> class_dict = [(''make'', CompiledMethod (PyObject 22))],
             lmethods = [PyObject 20],
             method_pointers = [(''area'', PyObject 10), (''make'', PyObject 21)],
             compiled_names = [''make''] \<rparr>
   \<and> dict_get (class_dict child_build_state) ''make'' = None
   \<and> numba_method_pointers (py_class (child_inherited \<lparr> py_class := class_Orphan \<rparr>)) = None
   \<and> methods (child_inherited \<lparr> py_class := class_Orphan \<rparr>)
     = [(''area'', FunctionType (Some f8) [Extension ''Child''] False False)]
       @ (''make'', FunctionType (Some i4) [i4] False False) # []
   \<and> compile_methods method_pipeline (child_inherited \<lparr> py_class := class_Orphan \<rparr>) []
       child_build_state
     = Inl (AssertionError ''parent_method_pointers is not None'')"
  using compile_methods_inherited
    [where ?compile2.0 = method_pipeline and et = child_inherited and flags = "[]"
       and st = override_build_state]
    compile_methods_inherited
    [where ?compile2.0 = method_pipeline
       and et = "child_inherited \<lparr> py_class := class_Orphan \<rparr>" and flags = "[]"
       and st = child_build_state
       and pre = "[(''area'', FunctionType (Some f8) [Extension ''Child''] False False)]"
       and name = "''make''" and sig = "FunctionType (Some i4) [i4] False False"
       and post = "[]"]
  by (simp add: compile_methods_def compile_method_def enumerate_def dict_get_def Let_def)

end
